theory Spec2Isabelle
  imports Main "HOL-Library.Multiset"
begin

section \<open>Package core: status, events, requests and responses\<close>

text \<open>
  \<^verbatim>\<open>type Status int\<close> with the five constants declared by \<^verbatim>\<open>iota\<close>, and its
  \<^verbatim>\<open>String()\<close> method, which indexes the array of the five names.
\<close>

datatype Status = StatusStopped | StatusStarting | StatusRunning | StatusStopping | StatusFailed

fun Status_String :: "Status \<Rightarrow> string" where
  "Status_String StatusStopped = ''Stopped''"
| "Status_String StatusStarting = ''Starting''"
| "Status_String StatusRunning = ''Running''"
| "Status_String StatusStopping = ''Stopping''"
| "Status_String StatusFailed = ''Failed''"

text \<open>
  Go's \<^verbatim>\<open>error\<close> values. The repository builds every error with \<^verbatim>\<open>fmt.Errorf\<close> or
  \<^verbatim>\<open>errors.New\<close>; the constructor names the place that builds it (after the taxonomy
  of the specification), the argument is the message the source formats. \<open>NetError\<close>
  is an error handed back by the operating system's network calls (dial, listen).
\<close>

datatype error =
    NetError string
  | StateError string
  | ConnectionError string
  | ReconnectExhausted string
  | NotConnected string
  | RPCError string
  | AlreadyRegistered string
  | HandlerError string

fun Error_msg :: "error \<Rightarrow> string" where
  "Error_msg (NetError m) = m"
| "Error_msg (StateError m) = m"
| "Error_msg (ConnectionError m) = m"
| "Error_msg (ReconnectExhausted m) = m"
| "Error_msg (NotConnected m) = m"
| "Error_msg (RPCError m) = m"
| "Error_msg (AlreadyRegistered m) = m"
| "Error_msg (HandlerError m) = m"

text \<open>
  A reading of the wall clock (\<^verbatim>\<open>time.Now()\<close>), held as the calendar fields that
  \<^verbatim>\<open>Time.Format\<close> prints, in the local time zone.
\<close>

record Time =
  Year :: int
  Month :: int
  Day :: int
  Hour :: int
  Minute :: int
  Second :: int
  Nanosecond :: int

text \<open>
  The standard library's \<^verbatim>\<open>appendInt(b, x, width)\<close>: a sign for a negative number, then
  the decimal digits, padded with zeros on the left up to \<open>width\<close> digits.
\<close>

definition digit :: "nat \<Rightarrow> char" where
  "digit d = ''0123456789'' ! d"

fun utoa :: "nat \<Rightarrow> string" where
  "utoa n = (if n < 10 then [digit n] else utoa (n div 10) @ [digit (n mod 10)])"

declare utoa.simps [simp del]

definition appendInt :: "int \<Rightarrow> nat \<Rightarrow> string" where
  "appendInt x width =
     (let ds = utoa (nat \<bar>x\<bar>)
      in (if x < 0 then ''-'' else []) @ replicate (width - length ds) CHR ''0'' @ ds)"

text \<open>
  \<^verbatim>\<open>t.Format("20060102150405")\<close>: the layout is the four-digit year, then month, day,
  hour (24 h), minute and second with two digits each. The layout has no fractional
  second, so \<open>Nanosecond\<close> is not printed.
\<close>

definition Format_20060102150405 :: "Time \<Rightarrow> string" where
  "Format_20060102150405 t =
     appendInt (Year t) 4 @ appendInt (Month t) 2 @ appendInt (Day t) 2 @
     appendInt (Hour t) 2 @ appendInt (Minute t) 2 @ appendInt (Second t) 2"

text \<open>
  \<^verbatim>\<open>interface{}\<close> values stored in the data and result maps: the JSON scalars the
  repository stores there.
\<close>

datatype val = VString string | VInt int | VBool bool | VNull

record Parameter =
  Name :: string
  Value :: val
  Type :: string

record ModelRequest =
  ID :: string
  ModelData :: "string \<rightharpoonup> val"
  Parameters :: "Parameter list"

record ModelResponse =
  ID :: string
  Success :: bool
  ErrorMessage :: string
  Results :: "string \<rightharpoonup> val"
  Timestamp :: Time

text \<open>
  \<^verbatim>\<open>generateID\<close>, \<^verbatim>\<open>NewModelRequest\<close>, \<^verbatim>\<open>NewModelResponse\<close> and \<^verbatim>\<open>ErrorResponse\<close> of
  models.go. Each reads the clock once; the reading is the argument \<open>now\<close>.
  \<^verbatim>\<open>ErrorMessage\<close> of a response built by \<^verbatim>\<open>NewModelResponse\<close> is Go's zero value, the
  empty string.
\<close>

definition generateID :: "Time \<Rightarrow> string" where
  "generateID now = ''mcp-'' @ Format_20060102150405 now"

definition NewModelRequest :: "Time \<Rightarrow> ModelRequest" where
  "NewModelRequest now =
     \<lparr>ModelRequest.ID = generateID now, ModelData = Map.empty, Parameters = []\<rparr>"

definition NewModelResponse :: "Time \<Rightarrow> ModelRequest \<Rightarrow> ModelResponse" where
  "NewModelResponse now req =
     \<lparr>ModelResponse.ID = ModelRequest.ID req, Success = True, ErrorMessage = [],
      Results = Map.empty, Timestamp = now\<rparr>"

definition ErrorResponse :: "Time \<Rightarrow> ModelRequest \<Rightarrow> error \<Rightarrow> ModelResponse" where
  "ErrorResponse now req err =
     \<lparr>ModelResponse.ID = ModelRequest.ID req, Success = False, ErrorMessage = Error_msg err,
      Results = Map.empty, Timestamp = now\<rparr>"

text \<open>
  \<^verbatim>\<open>StatusChangeEvent\<close> of the core package.
\<close>

record StatusChangeEvent =
  OldStatus :: Status
  NewStatus :: Status
  Timestamp :: Time
  Error :: "error option"

section \<open>Package server: handlers\<close>

text \<open>
  The interfaces \<^verbatim>\<open>Handler\<close> and \<^verbatim>\<open>ModelHandler\<close>. A handler value has its method list;
  it is a \<^verbatim>\<open>ModelHandler\<close> when it also has \<^verbatim>\<open>ProcessModel\<close>, which is what the type
  assertion \<^verbatim>\<open>handler.(ModelHandler)\<close> tests. \<^verbatim>\<open>ProcessModel\<close> receives the context (here:
  whether it is already cancelled) and the request, and returns Go's pair of a response
  pointer and an error.
\<close>

record Handler =
  Methods :: "string list"
  ProcessModel :: "(bool \<Rightarrow> ModelRequest \<Rightarrow> ModelResponse option \<times> error option) option"

text \<open>
  \<^verbatim>\<open>DefaultModelHandler\<close>: \<^verbatim>\<open>Methods\<close> and \<^verbatim>\<open>ProcessModel\<close> of handler.go.
  \<^verbatim>\<open>ProcessModel\<close> reads the clock (in \<^verbatim>\<open>NewModelResponse\<close>); the reading is the argument
  \<open>now\<close>, and a handler value is built with the reading its \<^verbatim>\<open>ProcessModel\<close> sees.
\<close>

definition DefaultModelHandler_Methods :: "string list" where
  "DefaultModelHandler_Methods = [''mcp.processModel'']"

definition DefaultModelHandler_ProcessModel ::
  "Time \<Rightarrow> bool \<Rightarrow> ModelRequest \<Rightarrow> ModelResponse option \<times> error option" where
  "DefaultModelHandler_ProcessModel now ctx req =
     (let resp = NewModelResponse now req;
          resp = resp\<lparr>Results := (Results resp)(''status'' \<mapsto> VString ''processed'')\<rparr>;
          resp = resp\<lparr>Results :=
                   (Results resp)(''message'' \<mapsto> VString ''Model processed successfully'')\<rparr>
      in (Some resp, None))"

definition NewDefaultModelHandler :: "Time \<Rightarrow> Handler" where
  "NewDefaultModelHandler now =
     \<lparr>Methods = DefaultModelHandler_Methods,
      ProcessModel = Some (DefaultModelHandler_ProcessModel now)\<rparr>"

section \<open>Effects and the clock\<close>

text \<open>
  A method runs to completion on the component's state, so the mutexes (\<^verbatim>\<open>statusMu\<close>,
  \<^verbatim>\<open>connMu\<close>) and the wait group are not part of the state; the one interleaving that
  is followed is a \<^verbatim>\<open>Stop\<close> that arrives while the reconnection loop runs. What
  a method does beyond writing fields is appended to the component's \<open>trace\<close>: the
  goroutines it starts with \<^verbatim>\<open>go\<close>, the completed calls of \<^verbatim>\<open>time.Sleep\<close> (with the
  duration slept), and the calls to the network. Log lines are not recorded.

  A registered callback is named by a number (\<open>observer\<close>). The clock is an oracle:
  \<open>clock k\<close> is what the \<open>k\<close>-th call of \<^verbatim>\<open>time.Now()\<close> by this component returns, and
  \<open>reads\<close> counts the calls made so far.
\<close>

type_synonym observer = nat

datatype action =
    GoCallback observer StatusChangeEvent
  | GoMonitorConnection
  | GoAcceptConnections
  | Sleep int
  | Dial string
  | Listen string
  | CloseConn
  | CloseListener string
  | Call string ModelRequest

fun is_Dial :: "action \<Rightarrow> bool" where
  "is_Dial (Dial a) = True"
| "is_Dial _ = False"

text \<open>The callback goroutines of a trace, in the order they were started.\<close>

fun spawned :: "action list \<Rightarrow> (observer \<times> StatusChangeEvent) list" where
  "spawned [] = []"
| "spawned (GoCallback ob ev # as) = (ob, ev) # spawned as"
| "spawned (a # as) = spawned as"

text \<open>\<^verbatim>\<open>%d\<close> of \<^verbatim>\<open>fmt.Sprintf\<close> on an \<^verbatim>\<open>int\<close>: the decimal digits, no padding.\<close>

definition fmt_d :: "int \<Rightarrow> string" where
  "fmt_d x = appendInt x 0"

section \<open>Package client\<close>

text \<open>\<^verbatim>\<open>Options\<close>, \<^verbatim>\<open>DefaultOptions\<close> and the option functions of client/options.go.
  A \<^verbatim>\<open>time.Duration\<close> is a number of nanoseconds.\<close>

definition Second_ns :: int where
  "Second_ns = 1000000000"

record ClientOptions =
  ServerHost :: string
  ServerPort :: int
  ConnectionTimeout :: int
  AutoReconnect :: bool
  MaxReconnectAttempts :: int
  ReconnectDelay :: int
  EnableTLS :: bool

definition Client_DefaultOptions :: ClientOptions where
  "Client_DefaultOptions =
     \<lparr>ServerHost = ''localhost'', ServerPort = 5000, ConnectionTimeout = 30 * Second_ns,
      AutoReconnect = True, MaxReconnectAttempts = 3, ReconnectDelay = Second_ns,
      EnableTLS = False\<rparr>"

definition WithServerHost :: "string \<Rightarrow> ClientOptions \<Rightarrow> ClientOptions" where
  "WithServerHost host o1 = o1\<lparr>ServerHost := host\<rparr>"

definition WithServerPort :: "int \<Rightarrow> ClientOptions \<Rightarrow> ClientOptions" where
  "WithServerPort port o1 = o1\<lparr>ServerPort := port\<rparr>"

definition Client_WithConnectionTimeout :: "int \<Rightarrow> ClientOptions \<Rightarrow> ClientOptions" where
  "Client_WithConnectionTimeout timeout o1 = o1\<lparr>ClientOptions.ConnectionTimeout := timeout\<rparr>"

definition WithAutoReconnect :: "bool \<Rightarrow> ClientOptions \<Rightarrow> ClientOptions" where
  "WithAutoReconnect enable o1 = o1\<lparr>AutoReconnect := enable\<rparr>"

definition WithMaxReconnectAttempts :: "int \<Rightarrow> ClientOptions \<Rightarrow> ClientOptions" where
  "WithMaxReconnectAttempts n o1 = o1\<lparr>MaxReconnectAttempts := n\<rparr>"

definition WithReconnectDelay :: "int \<Rightarrow> ClientOptions \<Rightarrow> ClientOptions" where
  "WithReconnectDelay delay o1 = o1\<lparr>ReconnectDelay := delay\<rparr>"

definition Client_WithTLS :: "ClientOptions \<Rightarrow> ClientOptions" where
  "Client_WithTLS o1 = o1\<lparr>ClientOptions.EnableTLS := True\<rparr>"

text \<open>
  The \<^verbatim>\<open>Client\<close> struct. \<open>conn\<close> is the JSON-RPC connection (\<open>None\<close> for \<^verbatim>\<open>nil\<close>), named
  by the address it was dialled to. \<open>ctxDone\<close> is the state of the pair \<^verbatim>\<open>ctx\<close>/\<^verbatim>\<open>cancel\<close>:
  whether \<^verbatim>\<open>cancel()\<close> has been called on the context the struct holds.
\<close>

record Client =
  opts :: ClientOptions
  status :: Status
  conn :: "string option"
  callbacks :: "observer list"
  reconnectAttempt :: int
  isConnected :: bool
  ctxDone :: bool
  clock :: "nat \<Rightarrow> Time"
  reads :: nat
  trace :: "action list"

text \<open>
  \<^verbatim>\<open>New\<close>: the options are applied in order to the defaults; the context is created here,
  not yet cancelled.
\<close>

definition Client_New :: "(ClientOptions \<Rightarrow> ClientOptions) list \<Rightarrow> (nat \<Rightarrow> Time) \<Rightarrow> Client" where
  "Client_New options clk =
     \<lparr>opts = fold (\<lambda>opt o1. opt o1) options Client_DefaultOptions,
      status = StatusStopped, conn = None, callbacks = [], reconnectAttempt = 0,
      isConnected = False, ctxDone = False, clock = clk, reads = 0, trace = []\<rparr>"

text \<open>
  \<^verbatim>\<open>updateStatusLocked\<close> writes the status, builds the event and starts one goroutine
  \<^verbatim>\<open>go callback(event)\<close> for each entry of \<^verbatim>\<open>callbacks\<close>, in order. \<^verbatim>\<open>updateStatus\<close> is the
  same under the lock.
\<close>

definition Client_updateStatusLocked :: "Status \<Rightarrow> error option \<Rightarrow> Client \<Rightarrow> Client" where
  "Client_updateStatusLocked newStatus err c =
     (let oldStatus = Client.status c;
          event = \<lparr>OldStatus = oldStatus, NewStatus = newStatus,
                   Timestamp = Client.clock c (Client.reads c), Error = err\<rparr>
      in c\<lparr>Client.status := newStatus, Client.reads := Client.reads c + 1,
           Client.trace := Client.trace c @ map (\<lambda>cb. GoCallback cb event) (Client.callbacks c)\<rparr>)"

definition Client_updateStatus :: "Status \<Rightarrow> error option \<Rightarrow> Client \<Rightarrow> Client" where
  "Client_updateStatus newStatus err c = Client_updateStatusLocked newStatus err c"

text \<open>
  \<^verbatim>\<open>connect\<close>. \<open>dial\<close> is what \<^verbatim>\<open>dialer.Dial("tcp", addr)\<close> returns: \<open>None\<close> for a
  connection, \<open>Some e\<close> for the error \<open>e\<close>. On success the connection is created on the
  client's context and the monitor goroutine is started.
\<close>

definition Client_connect :: "error option \<Rightarrow> Client \<Rightarrow> error option \<times> Client" where
  "Client_connect dial c =
     (let addr = ServerHost (Client.opts c) @ '':'' @ fmt_d (ServerPort (Client.opts c))
      in case dial of
           Some e \<Rightarrow>
             (Some (ConnectionError (''failed to connect to '' @ addr @ '': '' @ Error_msg e)),
              c\<lparr>Client.trace := Client.trace c @ [Dial addr]\<rparr>)
         | None \<Rightarrow>
             (None,
              c\<lparr>conn := Some addr, isConnected := True,
                Client.trace := Client.trace c @ [Dial addr, GoMonitorConnection]\<rparr>))"

definition Client_Start :: "error option \<Rightarrow> Client \<Rightarrow> error option \<times> Client" where
  "Client_Start dial c =
     (if Client.status c \<noteq> StatusStopped
      then (Some (StateError (''cannot start client in '' @ Status_String (Client.status c)
                                @ '' state'')), c)
      else let c1 = Client_updateStatusLocked StatusStarting None c
           in case Client_connect dial c1 of
                (Some err, c2) \<Rightarrow> (Some err, Client_updateStatus StatusFailed (Some err) c2)
              | (None, c2) \<Rightarrow> (None, Client_updateStatus StatusRunning None c2))"

text \<open>
  \<^verbatim>\<open>Stop\<close>. \<open>Client_Stop_shutdown\<close> is the part of \<^verbatim>\<open>Stop\<close> between its guard and its
  wait for the goroutines: the status becomes Stopping, the context is cancelled, the
  connection is closed. \<^verbatim>\<open>Stop\<close> then waits for the goroutines and sets Stopped.
\<close>

definition Client_Stop_shutdown :: "Client \<Rightarrow> Client" where
  "Client_Stop_shutdown c =
     (let c1 = Client_updateStatusLocked StatusStopping None c;
          c2 = c1\<lparr>Client.ctxDone := True\<rparr>;
          c3 = (case conn c2 of
                  Some cn \<Rightarrow> c2\<lparr>conn := None, Client.trace := Client.trace c2 @ [CloseConn]\<rparr>
                | None \<Rightarrow> c2)
      in c3\<lparr>isConnected := False\<rparr>)"

definition Client_Stop :: "Client \<Rightarrow> error option \<times> Client" where
  "Client_Stop c =
     (if Client.status c \<noteq> StatusRunning
      then (Some (StateError (''cannot stop client in '' @ Status_String (Client.status c)
                                @ '' state'')), c)
      else (None, Client_updateStatus StatusStopped None (Client_Stop_shutdown c)))"

text \<open>
  \<^verbatim>\<open>cancel()\<close> is called by \<^verbatim>\<open>Stop\<close> and by nothing else. A \<^verbatim>\<open>Stop\<close> called by another
  goroutine while the reconnection loop runs gets as far as its wait for the goroutines
  (the loop is one of them), if its guard lets it pass; otherwise it returns its error and
  changes nothing.
\<close>

definition concurrent_Stop :: "bool \<Rightarrow> Client \<Rightarrow> Client" where
  "concurrent_Stop called c =
     (if called \<and> Client.status c = StatusRunning then Client_Stop_shutdown c else c)"

text \<open>
  \<^verbatim>\<open>attemptReconnect\<close>. The loop's surroundings are the argument \<open>env\<close>: for the \<open>k\<close>-th
  pass, whether \<^verbatim>\<open>Stop\<close> is called while the pass sleeps, whether \<^verbatim>\<open>Stop\<close> is called while
  the pass dials, and what the dial returns. A pass counts the attempt, sleeps
  \<^verbatim>\<open>ReconnectDelay\<close> (\<^verbatim>\<open>time.Sleep\<close> returns only when the duration has passed), then looks
  at the context, and only then connects; \<^verbatim>\<open>connect\<close> does not look at the context.
\<close>

record attempt_env =
  stopInSleep :: bool
  stopInDial :: bool
  dialResult :: "error option"

function Client_attemptReconnect :: "(nat \<Rightarrow> attempt_env) \<Rightarrow> nat \<Rightarrow> Client \<Rightarrow> Client" where
  "Client_attemptReconnect env k c =
     (if reconnectAttempt c < MaxReconnectAttempts (Client.opts c)
      then
        let c1 = c\<lparr>reconnectAttempt := reconnectAttempt c + 1\<rparr>;
            c2 = concurrent_Stop (stopInSleep (env k)) c1;
            c3 = c2\<lparr>Client.trace := Client.trace c2 @ [Sleep (ReconnectDelay (Client.opts c2))]\<rparr>
        in if Client.ctxDone c3 then c3
           else (case Client_connect (dialResult (env k)) c3 of
                   (Some err, c4) \<Rightarrow>
                     Client_attemptReconnect env (k + 1) (concurrent_Stop (stopInDial (env k)) c4)
                 | (None, c4) \<Rightarrow>
                     (concurrent_Stop (stopInDial (env k)) c4)\<lparr>reconnectAttempt := 0\<rparr>)
      else Client_updateStatus StatusFailed
             (Some (ReconnectExhausted ''max reconnection attempts reached'')) c)"
  by pat_completeness auto
termination
  apply (relation "measure (\<lambda>(env, k, c). nat (MaxReconnectAttempts (Client.opts c) - reconnectAttempt c))")
   apply simp
  apply (auto simp: Client_connect_def concurrent_Stop_def Client_Stop_shutdown_def
      Client_updateStatusLocked_def Let_def split: option.splits if_splits)
  done

declare Client_attemptReconnect.simps [simp del]

text \<open>
  \<^verbatim>\<open>monitorConnection\<close>, from the point where the disconnect notification has arrived.
\<close>

definition Client_monitorConnection :: "(nat \<Rightarrow> attempt_env) \<Rightarrow> Client \<Rightarrow> Client" where
  "Client_monitorConnection env c =
     (case conn c of
        None \<Rightarrow> c
      | Some cn \<Rightarrow>
          let c1 = c\<lparr>isConnected := False\<rparr>
          in if AutoReconnect (Client.opts c1) \<and> Client.status c1 = StatusRunning
             then Client_attemptReconnect env 0 c1 else c1)"

definition Client_Status :: "Client \<Rightarrow> Status" where
  "Client_Status c = Client.status c"

definition Client_IsConnected :: "Client \<Rightarrow> bool" where
  "Client_IsConnected c = isConnected c"

definition Client_OnStatusChange :: "observer \<Rightarrow> Client \<Rightarrow> Client" where
  "Client_OnStatusChange callback c = c\<lparr>Client.callbacks := Client.callbacks c @ [callback]\<rparr>"

text \<open>
  \<^verbatim>\<open>ProcessModel\<close>. \<open>call\<close> is the transport's \<^verbatim>\<open>conn.Call\<close>: given the caller's context
  (whether it is cancelled), the method name and the request, it returns the reply or an
  error. The result is Go's pair of a response pointer and an error.
\<close>

definition Client_ProcessModel ::
  "(bool \<Rightarrow> string \<Rightarrow> ModelRequest \<Rightarrow> error + ModelResponse) \<Rightarrow> bool \<Rightarrow> ModelRequest \<Rightarrow> Client
     \<Rightarrow> (ModelResponse option \<times> error option) \<times> Client" where
  "Client_ProcessModel call ctx req c =
     (case conn c of
        None \<Rightarrow> ((None, Some (NotConnected ''not connected to server'')), c)
      | Some cn \<Rightarrow>
          (case call ctx ''mcp.processModel'' req of
             Inl err \<Rightarrow>
               ((None, Some (RPCError (''RPC error: '' @ Error_msg err))),
                c\<lparr>Client.trace := Client.trace c @ [Call ''mcp.processModel'' req]\<rparr>)
           | Inr resp \<Rightarrow>
               ((Some resp, None),
                c\<lparr>Client.trace := Client.trace c @ [Call ''mcp.processModel'' req]\<rparr>)))"

section \<open>Package server\<close>

text \<open>\<^verbatim>\<open>Options\<close> and \<^verbatim>\<open>DefaultOptions\<close> of the server package. The certificate paths are
  Go's zero value, the empty string, by default.\<close>

record ServerOptions =
  Host :: string
  Port :: int
  MaxConcurrentClients :: int
  ConnectionTimeout :: int
  EnableTLS :: bool
  CertificatePath :: string
  CertificateKeyPath :: string

definition Server_DefaultOptions :: ServerOptions where
  "Server_DefaultOptions =
     \<lparr>Host = ''127.0.0.1'', Port = 5000, MaxConcurrentClients = 10,
      ConnectionTimeout = 30 * Second_ns, EnableTLS = False,
      CertificatePath = [], CertificateKeyPath = []\<rparr>"

definition WithHost :: "string \<Rightarrow> ServerOptions \<Rightarrow> ServerOptions" where
  "WithHost host o1 = o1\<lparr>Host := host\<rparr>"

definition WithPort :: "int \<Rightarrow> ServerOptions \<Rightarrow> ServerOptions" where
  "WithPort port o1 = o1\<lparr>Port := port\<rparr>"

definition WithMaxConcurrentClients :: "int \<Rightarrow> ServerOptions \<Rightarrow> ServerOptions" where
  "WithMaxConcurrentClients n o1 = o1\<lparr>MaxConcurrentClients := n\<rparr>"

definition Server_WithConnectionTimeout :: "int \<Rightarrow> ServerOptions \<Rightarrow> ServerOptions" where
  "Server_WithConnectionTimeout timeout o1 = o1\<lparr>ServerOptions.ConnectionTimeout := timeout\<rparr>"

definition Server_WithTLS :: "string \<Rightarrow> string \<Rightarrow> ServerOptions \<Rightarrow> ServerOptions" where
  "Server_WithTLS certPath keyPath o1 =
     o1\<lparr>ServerOptions.EnableTLS := True, CertificatePath := certPath,
        CertificateKeyPath := keyPath\<rparr>"

definition WithCertificatePath :: "string \<Rightarrow> ServerOptions \<Rightarrow> ServerOptions" where
  "WithCertificatePath path o1 = o1\<lparr>CertificatePath := path\<rparr>"

definition WithCertificateKeyPath :: "string \<Rightarrow> ServerOptions \<Rightarrow> ServerOptions" where
  "WithCertificateKeyPath path o1 = o1\<lparr>CertificateKeyPath := path\<rparr>"

text \<open>
  The \<^verbatim>\<open>Server\<close> struct. A listener is named by the address it is bound to; \<open>handlers\<close>
  is the map from method names to handlers; \<open>ctxDone\<close>, \<open>clock\<close>, \<open>reads\<close> and \<open>trace\<close>
  are as for the client.
\<close>

record Server =
  opts :: ServerOptions
  status :: Status
  listeners :: "string list"
  handlers :: "string \<rightharpoonup> Handler"
  callbacks :: "observer list"
  ctxDone :: bool
  clock :: "nat \<Rightarrow> Time"
  reads :: nat
  trace :: "action list"

definition Server_New :: "(ServerOptions \<Rightarrow> ServerOptions) list \<Rightarrow> (nat \<Rightarrow> Time) \<Rightarrow> Server" where
  "Server_New options clk =
     \<lparr>opts = fold (\<lambda>opt o1. opt o1) options Server_DefaultOptions,
      status = StatusStopped, listeners = [], handlers = Map.empty, callbacks = [],
      ctxDone = False, clock = clk, reads = 0, trace = []\<rparr>"

text \<open>
  \<^verbatim>\<open>RegisterHandler\<close>: the loop over \<^verbatim>\<open>handler.Methods()\<close>. A pass either returns the
  error, with the map as the earlier passes left it, or stores the handler under the
  method name and goes on.
\<close>

fun RegisterHandler_loop ::
  "Handler \<Rightarrow> string list \<Rightarrow> (string \<rightharpoonup> Handler) \<Rightarrow> error option \<times> (string \<rightharpoonup> Handler)" where
  "RegisterHandler_loop handler [] hs = (None, hs)"
| "RegisterHandler_loop handler (m # ms) hs =
     (case hs m of
        Some h \<Rightarrow> (Some (AlreadyRegistered (''handler for method '' @ m @ '' already registered'')), hs)
      | None \<Rightarrow> RegisterHandler_loop handler ms (hs(m \<mapsto> handler)))"

definition Server_RegisterHandler :: "Handler \<Rightarrow> Server \<Rightarrow> error option \<times> Server" where
  "Server_RegisterHandler handler s =
     (case RegisterHandler_loop handler (Methods handler) (handlers s) of
        (err, hs) \<Rightarrow> (err, s\<lparr>handlers := hs\<rparr>))"

definition Server_updateStatusLocked :: "Status \<Rightarrow> error option \<Rightarrow> Server \<Rightarrow> Server" where
  "Server_updateStatusLocked newStatus err s =
     (let oldStatus = Server.status s;
          event = \<lparr>OldStatus = oldStatus, NewStatus = newStatus,
                   Timestamp = Server.clock s (Server.reads s), Error = err\<rparr>
      in s\<lparr>Server.status := newStatus, Server.reads := Server.reads s + 1,
           Server.trace := Server.trace s @ map (\<lambda>cb. GoCallback cb event) (Server.callbacks s)\<rparr>)"

definition Server_updateStatus :: "Status \<Rightarrow> error option \<Rightarrow> Server \<Rightarrow> Server" where
  "Server_updateStatus newStatus err s = Server_updateStatusLocked newStatus err s"

text \<open>
  \<^verbatim>\<open>Start\<close>. \<open>listen\<close> is what \<^verbatim>\<open>net.Listen("tcp", addr)\<close> returns: \<open>None\<close> for a
  listener, \<open>Some e\<close> for the error \<open>e\<close>.
\<close>

definition Server_Start :: "error option \<Rightarrow> Server \<Rightarrow> error option \<times> Server" where
  "Server_Start listen s =
     (if Server.status s \<noteq> StatusStopped
      then (Some (StateError (''cannot start server in '' @ Status_String (Server.status s)
                                @ '' state'')), s)
      else let s1 = Server_updateStatusLocked StatusStarting None s;
               addr = Host (Server.opts s1) @ '':'' @ fmt_d (Port (Server.opts s1));
               s2 = s1\<lparr>Server.trace := Server.trace s1 @ [Listen addr]\<rparr>
           in case listen of
                Some err \<Rightarrow>
                  (Some (ConnectionError (''failed to listen on '' @ addr @ '': '' @ Error_msg err)),
                   Server_updateStatus StatusFailed (Some err) s2)
              | None \<Rightarrow>
                  (None,
                   Server_updateStatus StatusRunning None
                     (s2\<lparr>listeners := listeners s2 @ [addr],
                         Server.trace := Server.trace s2 @ [GoAcceptConnections]\<rparr>)))"

text \<open>
  \<^verbatim>\<open>Stop\<close>: the context is cancelled, every listener of the list is closed (the list
  itself is left as it is), the goroutines are joined.
\<close>

definition Server_Stop :: "Server \<Rightarrow> error option \<times> Server" where
  "Server_Stop s =
     (if Server.status s \<noteq> StatusRunning
      then (Some (StateError (''cannot stop server in '' @ Status_String (Server.status s)
                                @ '' state'')), s)
      else let s1 = Server_updateStatusLocked StatusStopping None s;
               s2 = s1\<lparr>Server.ctxDone := True\<rparr>;
               s3 = s2\<lparr>Server.trace := Server.trace s2 @ map CloseListener (listeners s2)\<rparr>
           in (None, Server_updateStatus StatusStopped None s3))"

definition Server_Status :: "Server \<Rightarrow> Status" where
  "Server_Status s = Server.status s"

definition Server_OnStatusChange :: "observer \<Rightarrow> Server \<Rightarrow> Server" where
  "Server_OnStatusChange callback s = s\<lparr>Server.callbacks := Server.callbacks s @ [callback]\<rparr>"

subsection \<open>Dispatch\<close>

text \<open>
  An inbound call (\<^verbatim>\<open>jsonrpc2.Request\<close>): the method name, the parameters and the call's
  identifier. The parameters are a pointer to raw JSON: \<open>None\<close> is the \<^verbatim>\<open>nil\<close> pointer,
  and raw JSON is held as what \<^verbatim>\<open>json.Unmarshal\<close> makes of it, a request or an error
  message. The error codes are the constants of the transport library, by name.
\<close>

datatype payload = Decodes ModelRequest | Malformed string

record Request =
  Method :: string
  Params :: "payload option"
  ID :: string

datatype rpc_code =
  CodeParseError | CodeInvalidRequest | CodeMethodNotFound | CodeInvalidParams | CodeInternalError

datatype reply =
    Reply string "ModelResponse option"
  | ReplyWithError string rpc_code string

text \<open>
  Modelled from the spec: the transport's reply primitives (\<^verbatim>\<open>conn.Reply\<close>,
  \<^verbatim>\<open>conn.ReplyWithError\<close> of the external JSON-RPC library, which is not among the
  sources). A connection is whether it has been closed and the replies written to it
  so far; a reply is written to an open connection, and refused with an error on a closed
  one. Replying never closes the connection.
\<close>

record Conn =
  closed :: bool
  sent :: "reply list"

definition Conn_send :: "reply \<Rightarrow> Conn \<Rightarrow> error option \<times> Conn" where
  "Conn_send r cn =
     (if closed cn then (Some (NetError ''jsonrpc2: connection is closed''), cn)
      else (None, cn\<lparr>sent := sent cn @ [r]\<rparr>))"

text \<open>
  \<^verbatim>\<open>rpcHandler.Handle\<close> and \<^verbatim>\<open>handleProcessModel\<close>. An error of the reply primitive is
  logged and dropped, so the result is the connection. \<^verbatim>\<open>*req.Params\<close> on a \<^verbatim>\<open>nil\<close>
  pointer panics.
\<close>

datatype panic = NilPointerDereference

definition handleProcessModel :: "bool \<Rightarrow> Request \<Rightarrow> Handler \<Rightarrow> Conn \<Rightarrow> panic + Conn" where
  "handleProcessModel ctx req handler cn =
     (case ProcessModel handler of
        None \<Rightarrow>
          Inr (snd (Conn_send (ReplyWithError (Request.ID req) CodeInternalError
                      ''handler is not a ModelHandler'') cn))
      | Some processModel \<Rightarrow>
          (case Params req of
             None \<Rightarrow> Inl NilPointerDereference
           | Some (Malformed msg) \<Rightarrow>
               Inr (snd (Conn_send (ReplyWithError (Request.ID req) CodeInvalidParams
                           (''invalid params: '' @ msg)) cn))
           | Some (Decodes modelReq) \<Rightarrow>
               (case processModel ctx modelReq of
                  (resp, Some err) \<Rightarrow>
                    Inr (snd (Conn_send (ReplyWithError (Request.ID req) CodeInternalError
                                (''processing error: '' @ Error_msg err)) cn))
                | (resp, None) \<Rightarrow>
                    Inr (snd (Conn_send (Reply (Request.ID req) resp) cn)))))"

definition rpcHandler_Handle :: "Server \<Rightarrow> bool \<Rightarrow> Request \<Rightarrow> Conn \<Rightarrow> panic + Conn" where
  "rpcHandler_Handle s ctx req cn =
     (case handlers s (Method req) of
        None \<Rightarrow>
          Inr (snd (Conn_send (ReplyWithError (Request.ID req) CodeMethodNotFound
                      (''method not found: '' @ Method req)) cn))
      | Some handler \<Rightarrow>
          if Method req = ''mcp.processModel''
          then handleProcessModel ctx req handler cn
          else Inr (snd (Conn_send (ReplyWithError (Request.ID req) CodeInvalidRequest
                           (''unknown method: '' @ Method req)) cn)))"

text \<open>
  The calls of one connection, served in the order they arrive: what the transport does
  with \<^verbatim>\<open>Handle\<close> for each inbound call. A panic ends the serving.
\<close>

fun serve :: "Server \<Rightarrow> bool \<Rightarrow> Request list \<Rightarrow> Conn \<Rightarrow> panic + Conn" where
  "serve s ctx [] cn = Inr cn"
| "serve s ctx (req # reqs) cn =
     (case rpcHandler_Handle s ctx req cn of
        Inl p \<Rightarrow> Inl p
      | Inr cn' \<Rightarrow> serve s ctx reqs cn')"

section \<open>Callback goroutines\<close>

text \<open>
  \<^verbatim>\<open>go callback(event)\<close> starts a goroutine and returns at once. Nothing waits for these
  goroutines (they are not in the wait group), and they do not synchronise with each
  other or with the component, so the language fixes neither an order among them nor a
  time by which they have run. \<open>runs_as pending order\<close>: of the started goroutines
  \<open>pending\<close> (in the order they were started), those of \<open>order\<close> have run so far, in that
  order; the others have not run. \<open>received ob order\<close> is what the observer \<open>ob\<close> has got,
  in the order it got it.
\<close>

type_synonym delivery = "observer \<times> StatusChangeEvent"

inductive runs_as :: "delivery list \<Rightarrow> delivery list \<Rightarrow> bool" where
  none_run: "runs_as pending []"
| run_next: "runs_as (xs @ ys) order \<Longrightarrow> runs_as (xs @ x # ys) (x # order)"

definition received :: "observer \<Rightarrow> delivery list \<Rightarrow> StatusChangeEvent list" where
  "received ob order = map snd (filter (\<lambda>d. fst d = ob) order)"

section \<open>Passes of the reconnection loop\<close>

text \<open>
  The two writes of a pass of the loop of \<^verbatim>\<open>attemptReconnect\<close> before it looks at the
  context: the attempt is counted, and the delay has been slept in full. The address
  \<^verbatim>\<open>connect\<close> dials. The state after \<open>n\<close> passes whose dial failed, with no \<^verbatim>\<open>Stop\<close> in
  between: the counter has gone up by \<open>n\<close>, and each pass has slept the delay and dialled
  once.
\<close>

definition pass_counted :: "Client \<Rightarrow> Client" where
  "pass_counted c = c\<lparr>reconnectAttempt := reconnectAttempt c + 1\<rparr>"

definition pass_slept :: "Client \<Rightarrow> Client" where
  "pass_slept c = c\<lparr>Client.trace := Client.trace c @ [Sleep (ReconnectDelay (Client.opts c))]\<rparr>"

definition Client_addr :: "Client \<Rightarrow> string" where
  "Client_addr c = ServerHost (Client.opts c) @ '':'' @ fmt_d (ServerPort (Client.opts c))"

definition after_failed_passes :: "nat \<Rightarrow> Client \<Rightarrow> Client" where
  "after_failed_passes n c =
     c\<lparr>reconnectAttempt := reconnectAttempt c + int n,
       Client.trace := Client.trace c @
         concat (replicate n [Sleep (ReconnectDelay (Client.opts c)), Dial (Client_addr c)])\<rparr>"

section \<open>Values for the examples\<close>

text \<open>
  A clock whose \<open>k\<close>-th reading is \<open>k\<close> nanoseconds after 2025-05-16 04:19:57, the error
  of a refused dial or listen, a request, and a transport whose every call fails (with
  the context's error when the caller's context is cancelled).
\<close>

definition example_clock :: "nat \<Rightarrow> Time" where
  "example_clock k =
     \<lparr>Year = 2025, Month = 5, Day = 16, Hour = 4, Minute = 19, Second = 57,
      Nanosecond = int k\<rparr>"

definition refused :: error where
  "refused = NetError ''connection refused''"

definition example_request :: ModelRequest where
  "example_request = \<lparr>ModelRequest.ID = ''abc'', ModelData = Map.empty, Parameters = []\<rparr>"

definition failing_call :: "bool \<Rightarrow> string \<Rightarrow> ModelRequest \<Rightarrow> error + ModelResponse" where
  "failing_call ctx m req =
     (if ctx then Inl (NetError ''context canceled'') else Inl (NetError ''EOF''))"

text \<open>Two handlers without \<^verbatim>\<open>ProcessModel\<close>: one serves "b", the other "a" and "b".\<close>

definition handler_b :: Handler where
  "handler_b = \<lparr>Methods = [''b''], ProcessModel = None\<rparr>"

definition handler_ab :: Handler where
  "handler_ab = \<lparr>Methods = [''a'', ''b''], ProcessModel = None\<rparr>"

text \<open>
  A client running after its first start, and one started, stopped and started again.
  Surroundings of the reconnection loop: the server stays down; the server is back at
  the third dial; the server is up and \<^verbatim>\<open>Stop\<close> is called while the first pass sleeps;
  the server is up all the time.
\<close>

definition running_client :: Client where
  "running_client = snd (Client_Start None (Client_New [] example_clock))"

definition restarted_client :: Client where
  "restarted_client =
     snd (Client_Start None (snd (Client_Stop (snd (Client_Start None
       (Client_New [] example_clock))))))"

definition env_down :: "nat \<Rightarrow> attempt_env" where
  "env_down k = \<lparr>stopInSleep = False, stopInDial = False, dialResult = Some refused\<rparr>"

definition env_back_at_third :: "nat \<Rightarrow> attempt_env" where
  "env_back_at_third k =
     \<lparr>stopInSleep = False, stopInDial = False,
      dialResult = (if k < 2 then Some refused else None)\<rparr>"

definition env_stop_in_first_sleep :: "nat \<Rightarrow> attempt_env" where
  "env_stop_in_first_sleep k = \<lparr>stopInSleep = (k = 0), stopInDial = False, dialResult = None\<rparr>"

definition env_up :: "nat \<Rightarrow> attempt_env" where
  "env_up k = \<lparr>stopInSleep = False, stopInDial = False, dialResult = None\<rparr>"

text \<open>
  The server stays down and \<^verbatim>\<open>Stop\<close> is called while the first pass sleeps; the server
  stays down and \<^verbatim>\<open>Stop\<close> is called while the first pass dials. A running client whose
  bound of attempts is one; a client whose bound of attempts is zero, started, stopped and
  started again.
\<close>

definition env_down_stop_in_first_sleep :: "nat \<Rightarrow> attempt_env" where
  "env_down_stop_in_first_sleep k =
     \<lparr>stopInSleep = (k = 0), stopInDial = False, dialResult = Some refused\<rparr>"

definition env_down_stop_in_first_dial :: "nat \<Rightarrow> attempt_env" where
  "env_down_stop_in_first_dial k =
     \<lparr>stopInSleep = False, stopInDial = (k = 0), dialResult = Some refused\<rparr>"

definition running_client_one_attempt :: Client where
  "running_client_one_attempt =
     snd (Client_Start None (Client_New [WithMaxReconnectAttempts 1] example_clock))"

definition restarted_client_without_attempts :: Client where
  "restarted_client_without_attempts =
     snd (Client_Start None (snd (Client_Stop (snd (Client_Start None
       (Client_New [WithMaxReconnectAttempts 0] example_clock))))))"

text \<open>
  A server with the default handler registered, a call of a method nobody registered, a
  well-formed call of "mcp.processModel", and an open connection with nothing sent yet.
\<close>

definition serving_server :: Server where
  "serving_server =
     snd (Server_RegisterHandler (NewDefaultModelHandler (example_clock 0))
            (Server_New [] example_clock))"

definition unknown_call :: Request where
  "unknown_call = \<lparr>Method = ''mcp.unknown'', Params = None, Request.ID = ''1''\<rparr>"

definition model_call :: Request where
  "model_call =
     \<lparr>Method = ''mcp.processModel'', Params = Some (Decodes example_request), Request.ID = ''2''\<rparr>"

definition open_conn :: Conn where
  "open_conn = \<lparr>closed = False, sent = []\<rparr>"

text \<open>
  A client with one observer, started; and the events of its two transitions.
\<close>

definition observed_client :: Client where
  "observed_client = snd (Client_Start None (Client_OnStatusChange 0 (Client_New [] example_clock)))"

definition event_starting :: StatusChangeEvent where
  "event_starting =
     \<lparr>OldStatus = StatusStopped, NewStatus = StatusStarting, Timestamp = example_clock 0,
      Error = None\<rparr>"

definition event_running :: StatusChangeEvent where
  "event_running =
     \<lparr>OldStatus = StatusStarting, NewStatus = StatusRunning, Timestamp = example_clock 1,
      Error = None\<rparr>"

section \<open>Properties of the core constructors\<close>

text \<open>
  C6. Every response built for a request carries the request's identifier:
  \<^verbatim>\<open>NewModelResponse(req)\<close> and \<^verbatim>\<open>ErrorResponse(req, err)\<close> return a response whose ID is
  \<^verbatim>\<open>req.ID\<close>, the default handler answers every request with a response of the request's
  ID and no error, and so its response to a request with identifier "abc" has identifier
  "abc".
\<close>

theorem C6_response_carries_request_id:
  "ModelResponse.ID (NewModelResponse now req) = ModelRequest.ID req
   \<and> ModelResponse.ID (ErrorResponse now req err) = ModelRequest.ID req
   \<and> map_option ModelResponse.ID (fst (DefaultModelHandler_ProcessModel now ctx req))
       = Some (ModelRequest.ID req)
   \<and> snd (DefaultModelHandler_ProcessModel now ctx req) = None
   \<and> map_option ModelResponse.ID
        (fst (DefaultModelHandler_ProcessModel now ctx (req\<lparr>ModelRequest.ID := ''abc''\<rparr>)))
       = Some ''abc''"
  by (simp add: NewModelResponse_def ErrorResponse_def DefaultModelHandler_ProcessModel_def
      Let_def)

text \<open>
  C10. \<^verbatim>\<open>NewModelRequest\<close> takes its identifier from the creation time alone, printed at
  the resolution of one second: the prefix "mcp-" and the time in the layout
  "20060102150405". Two requests created in the same second (clock readings that differ
  in the nanosecond only) get the same identifier, although the readings differ: the
  constructor does not make identifiers unique. A request created on 2025-05-16 at
  04:19:57 gets "mcp-20250516041957", whatever the nanosecond.
\<close>

theorem C10_generated_id_has_second_resolution:
  "ModelRequest.ID (NewModelRequest now) = ''mcp-'' @ Format_20060102150405 now
   \<and> ModelRequest.ID (NewModelRequest (t\<lparr>Nanosecond := n1\<rparr>))
       = ModelRequest.ID (NewModelRequest (t\<lparr>Nanosecond := n2\<rparr>))
   \<and> t\<lparr>Nanosecond := 0\<rparr> \<noteq> t\<lparr>Nanosecond := 1\<rparr>
   \<and> ModelRequest.ID (NewModelRequest
        \<lparr>Year = 2025, Month = 5, Day = 16, Hour = 4, Minute = 19, Second = 57,
         Nanosecond = n\<rparr>) = ''mcp-20250516041957''"
proof -
  have fmt: "Format_20060102150405
        \<lparr>Year = 2025, Month = 5, Day = 16, Hour = 4, Minute = 19, Second = 57,
         Nanosecond = n\<rparr> = ''20250516041957''"
    by (simp add: Format_20060102150405_def appendInt_def utoa.simps digit_def Let_def)
  have neq: "t\<lparr>Nanosecond := 0\<rparr> \<noteq> t\<lparr>Nanosecond := 1\<rparr>"
  proof
    assume "t\<lparr>Nanosecond := 0\<rparr> = t\<lparr>Nanosecond := 1\<rparr>"
    then have "Nanosecond (t\<lparr>Nanosecond := 0\<rparr>) = Nanosecond (t\<lparr>Nanosecond := 1\<rparr>)"
      by simp
    then show False by simp
  qed
  show ?thesis
    using fmt neq
    by (simp add: NewModelRequest_def generateID_def Format_20060102150405_def)
qed

section \<open>Lifecycle\<close>

lemmas client_defs = Client_Start_def Client_Stop_def Client_Stop_shutdown_def Client_New_def
  Client_connect_def
  Client_updateStatus_def Client_updateStatusLocked_def Client_DefaultOptions_def Let_def
lemmas server_defs = Server_Start_def Server_Stop_def Server_New_def
  Server_updateStatus_def Server_updateStatusLocked_def Server_DefaultOptions_def Let_def

text \<open>
  C1. For the client and for the server: \<^verbatim>\<open>Start\<close> in a status other than Stopped returns
  the state error and the component exactly as it was (same status, nothing added to the
  trace, so no transition and no event); \<^verbatim>\<open>Stop\<close> in a status other than Running does the
  same. A \<^verbatim>\<open>Stop\<close> of a running component succeeds and ends in Stopped, and a second
  \<^verbatim>\<open>Stop\<close> right after it returns the state error and changes nothing.
\<close>

theorem C1_state_errors:
  "(Client.status c \<noteq> StatusStopped \<longrightarrow>
      Client_Start dial c =
        (Some (StateError (''cannot start client in '' @ Status_String (Client.status c) @ '' state'')), c))
   \<and> (Client.status c \<noteq> StatusRunning \<longrightarrow>
      Client_Stop c =
        (Some (StateError (''cannot stop client in '' @ Status_String (Client.status c) @ '' state'')), c))
   \<and> (Server.status s \<noteq> StatusStopped \<longrightarrow>
      Server_Start listen s =
        (Some (StateError (''cannot start server in '' @ Status_String (Server.status s) @ '' state'')), s))
   \<and> (Server.status s \<noteq> StatusRunning \<longrightarrow>
      Server_Stop s =
        (Some (StateError (''cannot stop server in '' @ Status_String (Server.status s) @ '' state'')), s))
   \<and> (Client.status cr = StatusRunning \<longrightarrow>
        fst (Client_Stop cr) = None
        \<and> Client.status (snd (Client_Stop cr)) = StatusStopped
        \<and> Client_Stop (snd (Client_Stop cr)) =
            (Some (StateError ''cannot stop client in Stopped state''), snd (Client_Stop cr)))
   \<and> (Server.status sr = StatusRunning \<longrightarrow>
        fst (Server_Stop sr) = None
        \<and> Server.status (snd (Server_Stop sr)) = StatusStopped
        \<and> Server_Stop (snd (Server_Stop sr)) =
            (Some (StateError ''cannot stop server in Stopped state''), snd (Server_Stop sr)))"
proof -
  have cfst: "fst (Client_Stop cr) = None" if "Client.status cr = StatusRunning"
    using that by (simp add: Client_Stop_def Let_def)
  have sfst: "fst (Server_Stop sr) = None" if "Server.status sr = StatusRunning"
    using that by (simp add: Server_Stop_def Let_def)
  have cstop: "Client.status (snd (Client_Stop cr)) = StatusStopped"
    if "Client.status cr = StatusRunning"
    using that
    by (simp add: Client_Stop_def Client_updateStatus_def Client_updateStatusLocked_def Let_def
        split: option.splits)
  have sstop: "Server.status (snd (Server_Stop sr)) = StatusStopped"
    if "Server.status sr = StatusRunning"
    using that
    by (simp add: Server_Stop_def Server_updateStatus_def Server_updateStatusLocked_def Let_def)
  have c2: "Client_Stop c' = (Some (StateError ''cannot stop client in Stopped state''), c')"
    if "Client.status c' = StatusStopped" for c'
    using that by (simp add: Client_Stop_def)
  have s2: "Server_Stop s' = (Some (StateError ''cannot stop server in Stopped state''), s')"
    if "Server.status s' = StatusStopped" for s'
    using that by (simp add: Server_Stop_def)
  have fails: "(Client.status c \<noteq> StatusStopped \<longrightarrow>
      Client_Start dial c =
        (Some (StateError (''cannot start client in '' @ Status_String (Client.status c) @ '' state'')), c))
   \<and> (Client.status c \<noteq> StatusRunning \<longrightarrow>
      Client_Stop c =
        (Some (StateError (''cannot stop client in '' @ Status_String (Client.status c) @ '' state'')), c))
   \<and> (Server.status s \<noteq> StatusStopped \<longrightarrow>
      Server_Start listen s =
        (Some (StateError (''cannot start server in '' @ Status_String (Server.status s) @ '' state'')), s))
   \<and> (Server.status s \<noteq> StatusRunning \<longrightarrow>
      Server_Stop s =
        (Some (StateError (''cannot stop server in '' @ Status_String (Server.status s) @ '' state'')), s))"
    by (simp add: Client_Start_def Client_Stop_def Server_Start_def Server_Stop_def)
  show ?thesis
    using fails cfst sfst cstop sstop c2 [OF cstop] s2 [OF sstop] by blast
qed

text \<open>
  C1 at an instance: a client and a server whose start failed (status Failed), and at a
  running client and server stopped twice.
\<close>

theorem C1_witness:
  "Client.status (snd (Client_Start (Some refused) (Client_New [] example_clock))) \<noteq> StatusStopped
   \<and> Client.status (snd (Client_Start (Some refused) (Client_New [] example_clock))) \<noteq> StatusRunning
   \<and> fst (Client_Start None (snd (Client_Start (Some refused) (Client_New [] example_clock))))
       = Some (StateError ''cannot start client in Failed state'')
   \<and> snd (Client_Start None (snd (Client_Start (Some refused) (Client_New [] example_clock))))
       = snd (Client_Start (Some refused) (Client_New [] example_clock))
   \<and> fst (Client_Stop (snd (Client_Start (Some refused) (Client_New [] example_clock))))
       = Some (StateError ''cannot stop client in Failed state'')
   \<and> Server.status (snd (Server_Start (Some refused) (Server_New [] example_clock))) \<noteq> StatusStopped
   \<and> Server.status (snd (Server_Start (Some refused) (Server_New [] example_clock))) \<noteq> StatusRunning
   \<and> fst (Server_Start None (snd (Server_Start (Some refused) (Server_New [] example_clock))))
       = Some (StateError ''cannot start server in Failed state'')
   \<and> fst (Server_Stop (snd (Server_Start (Some refused) (Server_New [] example_clock))))
       = Some (StateError ''cannot stop server in Failed state'')
   \<and> Client.status (snd (Client_Start None (Client_New [] example_clock))) = StatusRunning
   \<and> fst (Client_Stop (snd (Client_Stop (snd (Client_Start None (Client_New [] example_clock))))))
       = Some (StateError ''cannot stop client in Stopped state'')
   \<and> Server.status (snd (Server_Start None (Server_New [] example_clock))) = StatusRunning
   \<and> fst (Server_Stop (snd (Server_Stop (snd (Server_Start None (Server_New [] example_clock))))))
       = Some (StateError ''cannot stop server in Stopped state'')"
proof -
  let ?cf = "snd (Client_Start (Some refused) (Client_New [] example_clock))"
  let ?sf = "snd (Server_Start (Some refused) (Server_New [] example_clock))"
  let ?cr = "snd (Client_Start None (Client_New [] example_clock))"
  let ?sr = "snd (Server_Start None (Server_New [] example_clock))"
  have cf: "Client.status ?cf = StatusFailed" by (simp add: client_defs)
  have sf: "Server.status ?sf = StatusFailed" by (simp add: server_defs)
  have cr: "Client.status ?cr = StatusRunning" by (simp add: client_defs)
  have sr: "Server.status ?sr = StatusRunning" by (simp add: server_defs)
  show ?thesis
    using C1_state_errors [of ?cf None ?sf None ?cr ?sr] cf sf cr sr
    by simp
qed

section \<open>Calls of the client\<close>

text \<open>
  C9. A \<^verbatim>\<open>ProcessModel\<close> call that fails (no connection, or an error of the transport,
  which includes the caller's cancellation) returns no response, leaves the status as it
  was and starts no callback goroutine: \<^verbatim>\<open>Status()\<close> after the call is \<^verbatim>\<open>Status()\<close> before
  it.
\<close>

theorem C9_failed_call_keeps_status:
  "snd (fst (Client_ProcessModel call ctx req c)) \<noteq> None \<longrightarrow>
     fst (fst (Client_ProcessModel call ctx req c)) = None
     \<and> Client.status (snd (Client_ProcessModel call ctx req c)) = Client.status c
     \<and> spawned (Client.trace (snd (Client_ProcessModel call ctx req c))) = spawned (Client.trace c)
     \<and> Client_Status (snd (Client_ProcessModel call ctx req c)) = Client_Status c"
proof -
  have sp: "spawned (tr @ [Call m r]) = spawned tr" for tr m r
    by (induction tr rule: spawned.induct) simp_all
  show ?thesis
    by (simp add: Client_ProcessModel_def Client_Status_def sp split: option.splits sum.splits)
qed

text \<open>
  C9 at an instance: a client that was never started (not connected), and at a running client
  whose transport fails, with a live and with a cancelled caller's context.
\<close>

theorem C9_witness:
  "snd (fst (Client_ProcessModel failing_call False example_request (Client_New [] example_clock)))
     = Some (NotConnected ''not connected to server'')
   \<and> Client_Status (snd (Client_ProcessModel failing_call False example_request
        (Client_New [] example_clock))) = StatusStopped
   \<and> snd (fst (Client_ProcessModel failing_call False example_request
        (snd (Client_Start None (Client_New [] example_clock)))))
     = Some (RPCError ''RPC error: EOF'')
   \<and> snd (fst (Client_ProcessModel failing_call True example_request
        (snd (Client_Start None (Client_New [] example_clock)))))
     = Some (RPCError ''RPC error: context canceled'')
   \<and> Client_Status (snd (Client_ProcessModel failing_call True example_request
        (snd (Client_Start None (Client_New [] example_clock))))) = StatusRunning
   \<and> Client_Status (snd (Client_ProcessModel failing_call False example_request
        (snd (Client_Start None (Client_New [] example_clock))))) = StatusRunning"
proof -
  let ?c0 = "Client_New [] example_clock"
  let ?cr = "snd (Client_Start None ?c0)"
  have e0: "snd (fst (Client_ProcessModel failing_call False example_request ?c0))
     = Some (NotConnected ''not connected to server'')"
    by (simp add: Client_ProcessModel_def Client_New_def)
  have conn: "conn ?cr \<noteq> None" by (simp add: client_defs)
  have e1: "snd (fst (Client_ProcessModel failing_call False example_request ?cr))
     = Some (RPCError ''RPC error: EOF'')"
    using conn by (auto simp add: Client_ProcessModel_def failing_call_def)
  have e2: "snd (fst (Client_ProcessModel failing_call True example_request ?cr))
     = Some (RPCError ''RPC error: context canceled'')"
    using conn by (auto simp add: Client_ProcessModel_def failing_call_def)
  have st0: "Client_Status ?c0 = StatusStopped" by (simp add: Client_Status_def Client_New_def)
  have st1: "Client_Status ?cr = StatusRunning" by (simp add: Client_Status_def client_defs)
  show ?thesis
    using C9_failed_call_keeps_status [of failing_call False example_request ?c0]
      C9_failed_call_keeps_status [of failing_call False example_request ?cr]
      C9_failed_call_keeps_status [of failing_call True example_request ?cr]
      e0 e1 e2 st0 st1
    by simp
qed

section \<open>Registration\<close>

text \<open>
  What the loop of \<^verbatim>\<open>RegisterHandler\<close> never does: it never replaces a mapping that was
  there, and it returns the error when a declared name is already registered.
\<close>

lemma RegisterHandler_loop_keeps:
  "hs m = Some h \<Longrightarrow> snd (RegisterHandler_loop handler ms hs) m = Some h"
proof (induction ms arbitrary: hs)
  case Nil
  then show ?case by simp
next
  case (Cons a ms)
  show ?case
  proof (cases "hs a")
    case None
    with Cons.prems have "a \<noteq> m" by auto
    with Cons.prems have "(hs(a \<mapsto> handler)) m = Some h" by simp
    then have "snd (RegisterHandler_loop handler ms (hs(a \<mapsto> handler))) m = Some h"
      by (rule Cons.IH)
    with None show ?thesis by simp
  next
    case (Some h')
    with Cons.prems show ?thesis by simp
  qed
qed

lemma RegisterHandler_loop_conflict:
  "m \<in> set ms \<Longrightarrow> hs m = Some h \<Longrightarrow>
   \<exists>m'. fst (RegisterHandler_loop handler ms hs)
          = Some (AlreadyRegistered (''handler for method '' @ m' @ '' already registered''))"
proof (induction ms arbitrary: hs)
  case Nil
  then show ?case by simp
next
  case (Cons a ms)
  show ?case
  proof (cases "hs a")
    case None
    with Cons.prems have "a \<noteq> m" by auto
    with Cons.prems have "m \<in> set ms" "(hs(a \<mapsto> handler)) m = Some h" by auto
    then have "\<exists>m'. fst (RegisterHandler_loop handler ms (hs(a \<mapsto> handler)))
          = Some (AlreadyRegistered (''handler for method '' @ m' @ '' already registered''))"
      by (rule Cons.IH)
    with None show ?thesis by simp
  next
    case (Some h')
    then show ?thesis by auto
  qed
qed

text \<open>
  C3. \<^verbatim>\<open>RegisterHandler\<close> with a handler that declares "a" and "b", on a registry that
  holds "b" already: the call returns the error for "b", the mapping of "b" is the old
  one, and "a", which comes before "b" in the declared list, has been added.
\<close>

theorem C3_partial_registration:
  "fst (Server_RegisterHandler handler_b (Server_New [] example_clock)) = None
   \<and> handlers (snd (Server_RegisterHandler handler_b (Server_New [] example_clock))) ''a'' = None
   \<and> handlers (snd (Server_RegisterHandler handler_b (Server_New [] example_clock))) ''b''
       = Some handler_b
   \<and> fst (Server_RegisterHandler handler_ab
            (snd (Server_RegisterHandler handler_b (Server_New [] example_clock))))
       = Some (AlreadyRegistered ''handler for method b already registered'')
   \<and> handlers (snd (Server_RegisterHandler handler_ab
            (snd (Server_RegisterHandler handler_b (Server_New [] example_clock))))) ''a''
       = Some handler_ab
   \<and> handlers (snd (Server_RegisterHandler handler_ab
            (snd (Server_RegisterHandler handler_b (Server_New [] example_clock))))) ''b''
       = Some handler_b"
  by (simp add: Server_RegisterHandler_def Server_New_def handler_b_def handler_ab_def)

section \<open>Reconnection\<close>

lemma Stop_shutdown_fields:
  "Client.opts (Client_Stop_shutdown c) = Client.opts c"
  "reconnectAttempt (Client_Stop_shutdown c) = reconnectAttempt c"
  "Client.ctxDone (Client_Stop_shutdown c)"
  "Client.status (Client_Stop_shutdown c) = StatusStopping"
  by (simp_all add: Client_Stop_shutdown_def Client_updateStatusLocked_def Let_def
      split: option.splits)

lemma concurrent_Stop_simps:
  "concurrent_Stop False c = c"
  "Client.status c \<noteq> StatusRunning \<Longrightarrow> concurrent_Stop b c = c"
  "Client.status c = StatusRunning \<Longrightarrow> concurrent_Stop True c = Client_Stop_shutdown c"
  by (simp_all add: concurrent_Stop_def)

lemma concurrent_Stop_counter:
  "reconnectAttempt (concurrent_Stop b c) = reconnectAttempt c"
  "Client.opts (concurrent_Stop b c) = Client.opts c"
  by (simp_all add: concurrent_Stop_def Stop_shutdown_fields)

lemma reconnect_exhausted:
  "\<not> reconnectAttempt c < MaxReconnectAttempts (Client.opts c) \<Longrightarrow>
   Client_attemptReconnect env k c =
     Client_updateStatus StatusFailed
       (Some (ReconnectExhausted ''max reconnection attempts reached'')) c"
  by (subst Client_attemptReconnect.simps) simp

lemma reconnect_pass_cancelled:
  "reconnectAttempt c < MaxReconnectAttempts (Client.opts c) \<Longrightarrow>
   Client.ctxDone c \<Longrightarrow>
   \<not> stopInSleep (env k) \<or> Client.status c \<noteq> StatusRunning \<Longrightarrow>
   Client_attemptReconnect env k c = pass_slept (pass_counted c)"
  by (subst Client_attemptReconnect.simps)
     (auto simp: Let_def concurrent_Stop_def pass_slept_def pass_counted_def)

lemma reconnect_pass_entered_cancelled:
  "reconnectAttempt c < MaxReconnectAttempts (Client.opts c) \<Longrightarrow> Client.ctxDone c \<Longrightarrow>
   Client_attemptReconnect env k c =
     pass_slept (concurrent_Stop (stopInSleep (env k)) (pass_counted c))"
  by (subst Client_attemptReconnect.simps)
     (simp add: Let_def concurrent_Stop_def pass_slept_def pass_counted_def Stop_shutdown_fields)

lemma reconnect_pass_stopped:
  "reconnectAttempt c < MaxReconnectAttempts (Client.opts c) \<Longrightarrow>
   Client.status c = StatusRunning \<Longrightarrow> stopInSleep (env k) \<Longrightarrow>
   Client_attemptReconnect env k c = pass_slept (Client_Stop_shutdown (pass_counted c))"
  by (subst Client_attemptReconnect.simps)
     (simp add: Let_def concurrent_Stop_def pass_slept_def pass_counted_def Stop_shutdown_fields)

lemma reconnect_pass_failed:
  "reconnectAttempt c < MaxReconnectAttempts (Client.opts c) \<Longrightarrow>
   \<not> Client.ctxDone c \<Longrightarrow> \<not> stopInSleep (env k) \<Longrightarrow> dialResult (env k) = Some e \<Longrightarrow>
   Client_attemptReconnect env k c =
     Client_attemptReconnect env (k + 1)
       (concurrent_Stop (stopInDial (env k))
         (c\<lparr>reconnectAttempt := reconnectAttempt c + 1,
            Client.trace := Client.trace c @
              [Sleep (ReconnectDelay (Client.opts c)), Dial (Client_addr c)]\<rparr>))"
  by (subst Client_attemptReconnect.simps)
     (simp add: Let_def Client_connect_def Client_addr_def concurrent_Stop_simps)

lemma reconnect_pass_connected:
  "reconnectAttempt c < MaxReconnectAttempts (Client.opts c) \<Longrightarrow>
   \<not> Client.ctxDone c \<Longrightarrow> \<not> stopInSleep (env k) \<Longrightarrow> \<not> stopInDial (env k) \<Longrightarrow>
   dialResult (env k) = None \<Longrightarrow>
   Client_attemptReconnect env k c =
     c\<lparr>reconnectAttempt := 0, conn := Some (Client_addr c), isConnected := True,
       Client.trace := Client.trace c @
         [Sleep (ReconnectDelay (Client.opts c)), Dial (Client_addr c), GoMonitorConnection]\<rparr>"
  by (subst Client_attemptReconnect.simps)
     (simp add: Let_def Client_connect_def Client_addr_def concurrent_Stop_simps)

lemma after_failed_passes_0: "after_failed_passes 0 c = c"
  by (simp add: after_failed_passes_def)

lemma after_failed_passes_Suc:
  "(after_failed_passes n c)
     \<lparr>reconnectAttempt := reconnectAttempt (after_failed_passes n c) + 1,
      Client.trace := Client.trace (after_failed_passes n c) @
        [Sleep (ReconnectDelay (Client.opts (after_failed_passes n c))),
         Dial (Client_addr (after_failed_passes n c))]\<rparr>
   = after_failed_passes (Suc n) c"
proof -
  have "concat (replicate n xs) @ xs = xs @ concat (replicate n xs)" for xs :: "action list"
    by (induction n) simp_all
  then show ?thesis by (simp add: after_failed_passes_def Client_addr_def)
qed

lemma after_failed_passes_fields:
  "Client.opts (after_failed_passes n c) = Client.opts c"
  "reconnectAttempt (after_failed_passes n c) = reconnectAttempt c + int n"
  "Client.ctxDone (after_failed_passes n c) = Client.ctxDone c"
  "Client.status (after_failed_passes n c) = Client.status c"
  by (simp_all add: after_failed_passes_def)

lemma reconnect_failed_passes:
  "\<not> Client.ctxDone c \<Longrightarrow>
   reconnectAttempt c + int n \<le> MaxReconnectAttempts (Client.opts c) \<Longrightarrow>
   (\<forall>j<n. \<not> stopInSleep (env (k + j)) \<and> \<not> stopInDial (env (k + j))
           \<and> dialResult (env (k + j)) \<noteq> None) \<Longrightarrow>
   Client_attemptReconnect env k c = Client_attemptReconnect env (k + n) (after_failed_passes n c)"
proof (induction n)
  case 0
  then show ?case by (simp add: after_failed_passes_def)
next
  case (Suc n)
  let ?cn = "after_failed_passes n c"
  have ih: "Client_attemptReconnect env k c = Client_attemptReconnect env (k + n) ?cn"
    using Suc.prems by (intro Suc.IH) simp_all
  from Suc.prems(3) have pass: "\<not> stopInSleep (env (k + n))" "\<not> stopInDial (env (k + n))"
    "dialResult (env (k + n)) \<noteq> None"
    by simp_all
  then obtain e where e: "dialResult (env (k + n)) = Some e" by auto
  have lt: "reconnectAttempt ?cn < MaxReconnectAttempts (Client.opts ?cn)"
    using Suc.prems(2) by (simp add: after_failed_passes_fields)
  have live: "\<not> Client.ctxDone ?cn"
    using Suc.prems(1) by (simp add: after_failed_passes_fields)
  have "Client_attemptReconnect env (k + n) ?cn =
      Client_attemptReconnect env (k + n + 1) (after_failed_passes (Suc n) c)"
    using reconnect_pass_failed [of ?cn env "k + n" e] lt live pass e
    by (simp add: concurrent_Stop_simps after_failed_passes_Suc)
  with ih show ?case by simp
qed

lemma reconnect_failed_then_stopped_in_dial:
  "\<not> Client.ctxDone c \<Longrightarrow> Client.status c = StatusRunning \<Longrightarrow>
   reconnectAttempt c + int n < MaxReconnectAttempts (Client.opts c) \<Longrightarrow>
   (\<forall>j<n. \<not> stopInSleep (env (k + j)) \<and> \<not> stopInDial (env (k + j))
           \<and> dialResult (env (k + j)) \<noteq> None) \<Longrightarrow>
   \<not> stopInSleep (env (k + n)) \<Longrightarrow> stopInDial (env (k + n)) \<Longrightarrow>
   dialResult (env (k + n)) \<noteq> None \<Longrightarrow>
   Client_attemptReconnect env k c =
     Client_attemptReconnect env (k + n + 1)
       (Client_Stop_shutdown (after_failed_passes (Suc n) c))"
proof -
  assume a: "\<not> Client.ctxDone c" "Client.status c = StatusRunning"
    "reconnectAttempt c + int n < MaxReconnectAttempts (Client.opts c)"
    "\<forall>j<n. \<not> stopInSleep (env (k + j)) \<and> \<not> stopInDial (env (k + j))
           \<and> dialResult (env (k + j)) \<noteq> None"
    "\<not> stopInSleep (env (k + n))" "stopInDial (env (k + n))" "dialResult (env (k + n)) \<noteq> None"
  let ?cn = "after_failed_passes n c"
  from a(7) obtain e where e: "dialResult (env (k + n)) = Some e" by auto
  have first: "Client_attemptReconnect env k c = Client_attemptReconnect env (k + n) ?cn"
    using a by (intro reconnect_failed_passes) simp_all
  have lt: "reconnectAttempt ?cn < MaxReconnectAttempts (Client.opts ?cn)"
    using a(3) by (simp add: after_failed_passes_fields)
  have live: "\<not> Client.ctxDone ?cn"
    using a(1) by (simp add: after_failed_passes_fields)
  have run: "Client.status (after_failed_passes (Suc n) c) = StatusRunning"
    using a(2) by (simp add: after_failed_passes_fields)
  have "Client_attemptReconnect env (k + n) ?cn =
      Client_attemptReconnect env (k + n + 1)
        (Client_Stop_shutdown (after_failed_passes (Suc n) c))"
    using reconnect_pass_failed [of ?cn env "k + n" e] lt live a(5,6) e run
    by (simp add: concurrent_Stop_simps after_failed_passes_Suc)
  with first show ?thesis by simp
qed

lemma spawned_append: "spawned (xs @ ys) = spawned xs @ spawned ys"
  by (induction xs rule: spawned.induct) simp_all

lemma spawned_GoCallbacks: "spawned (map (\<lambda>cb. GoCallback cb ev) cbs) = map (\<lambda>cb. (cb, ev)) cbs"
  by (induction cbs) simp_all

lemma spawned_passes:
  "spawned (concat (replicate n [Sleep d, Dial a])) = []"
  by (induction n) simp_all

lemma dials_passes:
  "length (filter is_Dial (concat (replicate n [Sleep d, Dial a]))) = n"
  by (induction n) simp_all

lemma monitor_reconnects:
  "conn c \<noteq> None \<Longrightarrow> AutoReconnect (Client.opts c) \<Longrightarrow> Client.status c = StatusRunning \<Longrightarrow>
   Client_monitorConnection env c = Client_attemptReconnect env 0 (c\<lparr>isConnected := False\<rparr>)"
  by (auto simp: Client_monitorConnection_def Let_def)

lemma running_client_eq:
  "running_client =
     \<lparr>Client.opts = Client_DefaultOptions, Client.status = StatusRunning,
      conn = Some ''localhost:5000'', Client.callbacks = [], reconnectAttempt = 0,
      isConnected = True, Client.ctxDone = False, Client.clock = example_clock,
      Client.reads = 2, Client.trace = [Dial ''localhost:5000'', GoMonitorConnection]\<rparr>"
  by (simp add: running_client_def client_defs fmt_d_def appendInt_def utoa.simps digit_def)

lemma restarted_client_facts:
  "Client.ctxDone restarted_client" "Client.status restarted_client = StatusRunning"
  "reconnectAttempt restarted_client = 0"
  "Client.opts restarted_client = Client_DefaultOptions"
  "Client.trace restarted_client =
     [Dial ''localhost:5000'', GoMonitorConnection, CloseConn, Dial ''localhost:5000'',
      GoMonitorConnection]"
  by (simp_all add: restarted_client_def client_defs fmt_d_def appendInt_def utoa.simps digit_def)

lemma restarted_client_without_attempts_facts:
  "Client.ctxDone restarted_client_without_attempts"
  "reconnectAttempt restarted_client_without_attempts = 0"
  "MaxReconnectAttempts (Client.opts restarted_client_without_attempts) = 0"
  by (simp_all add: restarted_client_without_attempts_def client_defs
      WithMaxReconnectAttempts_def)

lemma running_client_one_attempt_facts:
  "Client.status running_client_one_attempt = StatusRunning"
  "\<not> Client.ctxDone running_client_one_attempt"
  "reconnectAttempt running_client_one_attempt = 0"
  "MaxReconnectAttempts (Client.opts running_client_one_attempt) = 1"
  by (simp_all add: running_client_one_attempt_def client_defs WithMaxReconnectAttempts_def)

text \<open>
  The counter of attempts never becomes negative.
\<close>

lemma attemptReconnect_counter_nonneg:
  "0 \<le> reconnectAttempt c \<Longrightarrow> 0 \<le> reconnectAttempt (Client_attemptReconnect env k c)"
proof (induction env k c rule: Client_attemptReconnect.induct)
  case (1 env k c)
  show ?case
  proof (cases "reconnectAttempt c < MaxReconnectAttempts (Client.opts c)")
    case False
    then show ?thesis
      using "1.prems"
      by (simp add: reconnect_exhausted Client_updateStatus_def Client_updateStatusLocked_def Let_def)
  next
    case lt: True
    define c1 where "c1 = c\<lparr>reconnectAttempt := reconnectAttempt c + 1\<rparr>"
    define c2 where "c2 = concurrent_Stop (stopInSleep (env k)) c1"
    define c3 where "c3 = c2\<lparr>Client.trace := Client.trace c2 @ [Sleep (ReconnectDelay (Client.opts c2))]\<rparr>"
    have cnt: "reconnectAttempt c3 = reconnectAttempt c + 1"
      by (simp add: c3_def c2_def c1_def concurrent_Stop_counter)
    show ?thesis
    proof (cases "Client.ctxDone c3")
      case True
      then have "Client_attemptReconnect env k c = c3"
        using lt by (subst Client_attemptReconnect.simps) (simp add: Let_def c3_def c2_def c1_def)
      with cnt "1.prems" show ?thesis by simp
    next
      case live: False
      show ?thesis
      proof (cases "Client_connect (dialResult (env k)) c3")
        case (Pair r c4)
        have c4: "reconnectAttempt c4 = reconnectAttempt c + 1"
          using Pair cnt by (auto simp: Client_connect_def Let_def split: option.splits)
        show ?thesis
        proof (cases r)
          case None
          with Pair live lt have "Client_attemptReconnect env k c =
              (concurrent_Stop (stopInDial (env k)) c4)\<lparr>reconnectAttempt := 0\<rparr>"
            by (subst Client_attemptReconnect.simps) (simp add: Let_def c3_def c2_def c1_def)
          then show ?thesis by simp
        next
          case (Some err)
          with Pair live lt have eq: "Client_attemptReconnect env k c =
              Client_attemptReconnect env (k + 1) (concurrent_Stop (stopInDial (env k)) c4)"
            by (subst Client_attemptReconnect.simps) (simp add: Let_def c3_def c2_def c1_def)
          have "0 \<le> reconnectAttempt (Client_attemptReconnect env (k + 1)
                   (concurrent_Stop (stopInDial (env k)) c4))"
            using lt live Pair Some "1.prems" c4
            by (intro "1.IH" [where x = c1 and xa = c2 and xb = c3])
               (simp_all add: c1_def c2_def c3_def concurrent_Stop_counter)
          with eq show ?thesis by simp
        qed
      qed
    qed
  qed
qed

text \<open>
  C4. A component started, stopped and started again. The context is created by \<^verbatim>\<open>New\<close>
  and by nothing else; \<^verbatim>\<open>Stop\<close> cancels it. The first \<^verbatim>\<open>Start\<close> runs under the context of
  \<^verbatim>\<open>New\<close>, not cancelled. The second \<^verbatim>\<open>Start\<close> succeeds and reaches Running, and the
  context its work runs under is the one the \<^verbatim>\<open>Stop\<close> before it cancelled. So when the
  restarted client loses its connection, with the server up, its reconnection loop sleeps
  once, finds the context cancelled and returns: the client stays Running, not connected,
  and never dials.
\<close>

theorem C4_restart_runs_under_cancelled_scope:
  "\<not> Client.ctxDone (Client_New [] example_clock)
   \<and> \<not> Client.ctxDone (snd (Client_Start None (Client_New [] example_clock)))
   \<and> Client.ctxDone (snd (Client_Stop (snd (Client_Start None (Client_New [] example_clock)))))
   \<and> fst (Client_Start None
        (snd (Client_Stop (snd (Client_Start None (Client_New [] example_clock)))))) = None
   \<and> Client.status (snd (Client_Start None
        (snd (Client_Stop (snd (Client_Start None (Client_New [] example_clock))))))) = StatusRunning
   \<and> Client.ctxDone (snd (Client_Start None
        (snd (Client_Stop (snd (Client_Start None (Client_New [] example_clock)))))))
   \<and> Client_monitorConnection env_up
        (snd (Client_Start None
          (snd (Client_Stop (snd (Client_Start None (Client_New [] example_clock)))))))
       = (snd (Client_Start None
          (snd (Client_Stop (snd (Client_Start None (Client_New [] example_clock)))))))
         \<lparr>isConnected := False, reconnectAttempt := 1,
          Client.trace :=
            [Dial ''localhost:5000'', GoMonitorConnection, CloseConn, Dial ''localhost:5000'',
             GoMonitorConnection, Sleep Second_ns]\<rparr>
   \<and> \<not> Server.ctxDone (Server_New [] example_clock)
   \<and> \<not> Server.ctxDone (snd (Server_Start None (Server_New [] example_clock)))
   \<and> Server.ctxDone (snd (Server_Stop (snd (Server_Start None (Server_New [] example_clock)))))
   \<and> fst (Server_Start None
        (snd (Server_Stop (snd (Server_Start None (Server_New [] example_clock)))))) = None
   \<and> Server.status (snd (Server_Start None
        (snd (Server_Stop (snd (Server_Start None (Server_New [] example_clock))))))) = StatusRunning
   \<and> Server.ctxDone (snd (Server_Start None
        (snd (Server_Stop (snd (Server_Start None (Server_New [] example_clock)))))))"
proof -
  let ?c = "snd (Client_Start None
          (snd (Client_Stop (snd (Client_Start None (Client_New [] example_clock))))))"
  have c: "?c = restarted_client" by (simp add: restarted_client_def)
  have f: "conn restarted_client \<noteq> None" "AutoReconnect (Client.opts restarted_client)"
    "MaxReconnectAttempts (Client.opts restarted_client) = 3"
    "ReconnectDelay (Client.opts restarted_client) = Second_ns"
    by (simp_all add: restarted_client_def client_defs)
  have "Client_monitorConnection env_up restarted_client =
      Client_attemptReconnect env_up 0 (restarted_client\<lparr>isConnected := False\<rparr>)"
    using f restarted_client_facts by (intro monitor_reconnects) simp_all
  also have "\<dots> = pass_slept (pass_counted (restarted_client\<lparr>isConnected := False\<rparr>))"
    using f restarted_client_facts(1,3)
    by (intro reconnect_pass_cancelled) (simp_all add: env_up_def)
  finally have m: "Client_monitorConnection env_up restarted_client =
      restarted_client\<lparr>isConnected := False, reconnectAttempt := 1,
          Client.trace :=
            [Dial ''localhost:5000'', GoMonitorConnection, CloseConn, Dial ''localhost:5000'',
             GoMonitorConnection, Sleep Second_ns]\<rparr>"
    using f(4) by (simp add: restarted_client_facts pass_slept_def pass_counted_def)
  have rest: "\<not> Client.ctxDone (Client_New [] example_clock)
   \<and> \<not> Client.ctxDone (snd (Client_Start None (Client_New [] example_clock)))
   \<and> Client.ctxDone (snd (Client_Stop (snd (Client_Start None (Client_New [] example_clock)))))
   \<and> fst (Client_Start None
        (snd (Client_Stop (snd (Client_Start None (Client_New [] example_clock)))))) = None
   \<and> \<not> Server.ctxDone (Server_New [] example_clock)
   \<and> \<not> Server.ctxDone (snd (Server_Start None (Server_New [] example_clock)))
   \<and> Server.ctxDone (snd (Server_Stop (snd (Server_Start None (Server_New [] example_clock)))))
   \<and> fst (Server_Start None
        (snd (Server_Stop (snd (Server_Start None (Server_New [] example_clock)))))) = None
   \<and> Server.status (snd (Server_Start None
        (snd (Server_Stop (snd (Server_Start None (Server_New [] example_clock))))))) = StatusRunning
   \<and> Server.ctxDone (snd (Server_Start None
        (snd (Server_Stop (snd (Server_Start None (Server_New [] example_clock)))))))"
    by (simp add: client_defs server_defs)
  show ?thesis
    using rest m restarted_client_facts(1,2) unfolding c by simp
qed

text \<open>
  C2, as the code has it. Auto-reconnect is enabled, the client is Running on a
  connection, and the disconnect notification arrives; the context is not cancelled then,
  and \<^verbatim>\<open>Stop\<close> is not called while the loop runs.

  If every dial from then on fails, the client dials once per remaining attempt, that
  is \<^verbatim>\<open>MaxReconnectAttempts\<close> minus the counter times, hence at most
  \<^verbatim>\<open>MaxReconnectAttempts\<close> times (not at all when the bound is zero or less), and then
  becomes Failed, starting for every observer a callback with the event Running to Failed
  that carries the error "max reconnection attempts reached", a new error that does not
  wrap the error of the last dial.

  If the dials fail \<open>n\<close> times and the next one, still within the bound, succeeds, the
  counter is back at zero, the status is still Running, the client is connected, and no
  event was started.
\<close>

theorem C2_bounded_reconnect:
  "(AutoReconnect (Client.opts c) \<and> Client.status c = StatusRunning \<and> conn c \<noteq> None
      \<and> \<not> Client.ctxDone c \<and> 0 \<le> reconnectAttempt c
      \<and> (\<forall>k. \<not> stopInSleep (env k) \<and> \<not> stopInDial (env k) \<and> dialResult (env k) \<noteq> None)
    \<longrightarrow>
      length (filter is_Dial (Client.trace (Client_monitorConnection env c)))
        = length (filter is_Dial (Client.trace c))
          + nat (MaxReconnectAttempts (Client.opts c) - reconnectAttempt c)
      \<and> length (filter is_Dial (Client.trace (Client_monitorConnection env c)))
        \<le> length (filter is_Dial (Client.trace c)) + nat (MaxReconnectAttempts (Client.opts c))
      \<and> Client.status (Client_monitorConnection env c) = StatusFailed
      \<and> spawned (Client.trace (Client_monitorConnection env c))
        = spawned (Client.trace c) @
          map (\<lambda>cb. (cb, \<lparr>OldStatus = StatusRunning, NewStatus = StatusFailed,
                          Timestamp = Client.clock c (Client.reads c),
                          Error = Some (ReconnectExhausted ''max reconnection attempts reached'')\<rparr>))
            (Client.callbacks c))
   \<and> (AutoReconnect (Client.opts c') \<and> Client.status c' = StatusRunning \<and> conn c' \<noteq> None
      \<and> \<not> Client.ctxDone c'
      \<and> reconnectAttempt c' + int n < MaxReconnectAttempts (Client.opts c')
      \<and> (\<forall>j<n. \<not> stopInSleep (env' j) \<and> \<not> stopInDial (env' j) \<and> dialResult (env' j) \<noteq> None)
      \<and> \<not> stopInSleep (env' n) \<and> \<not> stopInDial (env' n) \<and> dialResult (env' n) = None
    \<longrightarrow>
      reconnectAttempt (Client_monitorConnection env' c') = 0
      \<and> Client.status (Client_monitorConnection env' c') = StatusRunning
      \<and> isConnected (Client_monitorConnection env' c')
      \<and> spawned (Client.trace (Client_monitorConnection env' c')) = spawned (Client.trace c')
      \<and> length (filter is_Dial (Client.trace (Client_monitorConnection env' c')))
        = length (filter is_Dial (Client.trace c')) + n + 1)"
proof (intro conjI impI)
  assume H: "AutoReconnect (Client.opts c) \<and> Client.status c = StatusRunning \<and> conn c \<noteq> None
      \<and> \<not> Client.ctxDone c \<and> 0 \<le> reconnectAttempt c
      \<and> (\<forall>k. \<not> stopInSleep (env k) \<and> \<not> stopInDial (env k) \<and> dialResult (env k) \<noteq> None)"
  define m where "m = nat (MaxReconnectAttempts (Client.opts c) - reconnectAttempt c)"
  let ?c0 = "c\<lparr>isConnected := False\<rparr>"
  let ?cm = "after_failed_passes m ?c0"
  have mon: "Client_monitorConnection env c = Client_attemptReconnect env 0 ?c0"
    using H by (simp add: monitor_reconnects)
  have "Client_attemptReconnect env 0 ?c0 = Client_attemptReconnect env (0 + m) ?cm"
  proof (cases "reconnectAttempt c \<le> MaxReconnectAttempts (Client.opts c)")
    case True
    with H show ?thesis by (intro reconnect_failed_passes) (simp_all add: m_def)
  next
    case False
    then have "m = 0" by (simp add: m_def)
    then show ?thesis by (simp add: after_failed_passes_def)
  qed
  moreover have "\<not> reconnectAttempt ?cm < MaxReconnectAttempts (Client.opts ?cm)"
    by (simp add: after_failed_passes_def m_def)
  ultimately have res: "Client_monitorConnection env c =
      Client_updateStatus StatusFailed
        (Some (ReconnectExhausted ''max reconnection attempts reached'')) ?cm"
    using mon by (simp add: reconnect_exhausted)
  show "length (filter is_Dial (Client.trace (Client_monitorConnection env c)))
        = length (filter is_Dial (Client.trace c))
          + nat (MaxReconnectAttempts (Client.opts c) - reconnectAttempt c)"
    by (simp add: res Client_updateStatus_def Client_updateStatusLocked_def Let_def
        after_failed_passes_def dials_passes m_def filter_map comp_def)
  then show "length (filter is_Dial (Client.trace (Client_monitorConnection env c)))
        \<le> length (filter is_Dial (Client.trace c)) + nat (MaxReconnectAttempts (Client.opts c))"
    using H by linarith
  show "Client.status (Client_monitorConnection env c) = StatusFailed"
    by (simp add: res Client_updateStatus_def Client_updateStatusLocked_def Let_def)
  show "spawned (Client.trace (Client_monitorConnection env c))
        = spawned (Client.trace c) @
          map (\<lambda>cb. (cb, \<lparr>OldStatus = StatusRunning, NewStatus = StatusFailed,
                          Timestamp = Client.clock c (Client.reads c),
                          Error = Some (ReconnectExhausted ''max reconnection attempts reached'')\<rparr>))
            (Client.callbacks c)"
    using H
    by (simp add: res Client_updateStatus_def Client_updateStatusLocked_def Let_def
        after_failed_passes_def spawned_append spawned_passes spawned_GoCallbacks)
next
  assume H: "AutoReconnect (Client.opts c') \<and> Client.status c' = StatusRunning \<and> conn c' \<noteq> None
      \<and> \<not> Client.ctxDone c'
      \<and> reconnectAttempt c' + int n < MaxReconnectAttempts (Client.opts c')
      \<and> (\<forall>j<n. \<not> stopInSleep (env' j) \<and> \<not> stopInDial (env' j) \<and> dialResult (env' j) \<noteq> None)
      \<and> \<not> stopInSleep (env' n) \<and> \<not> stopInDial (env' n) \<and> dialResult (env' n) = None"
  let ?c0 = "c'\<lparr>isConnected := False\<rparr>"
  let ?cn = "after_failed_passes n ?c0"
  have mon: "Client_monitorConnection env' c' = Client_attemptReconnect env' 0 ?c0"
    using H by (simp add: monitor_reconnects)
  have "Client_attemptReconnect env' 0 ?c0 = Client_attemptReconnect env' (0 + n) ?cn"
    using H by (intro reconnect_failed_passes) simp_all
  moreover have "Client_attemptReconnect env' n ?cn =
      ?cn\<lparr>reconnectAttempt := 0, conn := Some (Client_addr ?cn), isConnected := True,
       Client.trace := Client.trace ?cn @
         [Sleep (ReconnectDelay (Client.opts ?cn)), Dial (Client_addr ?cn), GoMonitorConnection]\<rparr>"
    using H by (intro reconnect_pass_connected) (simp_all add: after_failed_passes_def)
  ultimately have res: "Client_monitorConnection env' c' =
      ?cn\<lparr>reconnectAttempt := 0, conn := Some (Client_addr ?cn), isConnected := True,
       Client.trace := Client.trace ?cn @
         [Sleep (ReconnectDelay (Client.opts ?cn)), Dial (Client_addr ?cn), GoMonitorConnection]\<rparr>"
    using mon by simp
  show "reconnectAttempt (Client_monitorConnection env' c') = 0"
    by (simp add: res)
  show "Client.status (Client_monitorConnection env' c') = StatusRunning"
    using H by (simp add: res after_failed_passes_def)
  show "isConnected (Client_monitorConnection env' c')"
    by (simp add: res)
  show "spawned (Client.trace (Client_monitorConnection env' c')) = spawned (Client.trace c')"
    by (simp add: res after_failed_passes_def spawned_append spawned_passes)
  show "length (filter is_Dial (Client.trace (Client_monitorConnection env' c')))
        = length (filter is_Dial (Client.trace c')) + n + 1"
    by (simp add: res after_failed_passes_def dials_passes)
qed

text \<open>
  C2 at an instance: the running client with the default options (three attempts): with the
  server down for good it dials three more times and fails; with the server back at the
  third dial it dials three more times and stays Running with the counter at zero.
\<close>

theorem C2_witness:
  "AutoReconnect (Client.opts running_client) \<and> Client.status running_client = StatusRunning
   \<and> \<not> Client.ctxDone running_client \<and> reconnectAttempt running_client = 0
   \<and> MaxReconnectAttempts (Client.opts running_client) = 3
   \<and> length (filter is_Dial (Client.trace running_client)) = 1
   \<and> length (filter is_Dial (Client.trace (Client_monitorConnection env_down running_client))) = 4
   \<and> Client.status (Client_monitorConnection env_down running_client) = StatusFailed
   \<and> reconnectAttempt (Client_monitorConnection env_back_at_third running_client) = 0
   \<and> Client.status (Client_monitorConnection env_back_at_third running_client) = StatusRunning
   \<and> length (filter is_Dial
        (Client.trace (Client_monitorConnection env_back_at_third running_client))) = 4"
proof -
  have down: "\<forall>k. \<not> stopInSleep (env_down k) \<and> \<not> stopInDial (env_down k)
                 \<and> dialResult (env_down k) \<noteq> None"
    by (simp add: env_down_def)
  have third: "\<forall>j<2. \<not> stopInSleep (env_back_at_third j) \<and> \<not> stopInDial (env_back_at_third j)
                     \<and> dialResult (env_back_at_third j) \<noteq> None"
    "\<not> stopInSleep (env_back_at_third 2)" "\<not> stopInDial (env_back_at_third 2)"
    "dialResult (env_back_at_third 2) = None"
    by (simp_all add: env_back_at_third_def)
  have c: "AutoReconnect (Client.opts running_client)" "Client.status running_client = StatusRunning"
    "conn running_client \<noteq> None" "\<not> Client.ctxDone running_client"
    "reconnectAttempt running_client = 0" "MaxReconnectAttempts (Client.opts running_client) = 3"
    "length (filter is_Dial (Client.trace running_client)) = 1"
    by (simp_all add: running_client_eq Client_DefaultOptions_def)
  show ?thesis
    using C2_bounded_reconnect [of running_client env_down running_client 2 env_back_at_third]
      down third c
    by simp
qed

text \<open>
  C2 as stated fails. The client started, stopped and started again is Running with
  auto-reconnect on a connection, but its context is cancelled: when it loses the
  connection and the server stays down, the loop returns at its first look at the context;
  the client never dials and stays Running, it does not become Failed. And when \<^verbatim>\<open>Stop\<close>
  is called while the first pass of a running client sleeps, the loop returns without a
  dial and without setting Failed: the status is the Stopping that \<^verbatim>\<open>Stop\<close> wrote.
\<close>

theorem C2_counterexample:
  "AutoReconnect (Client.opts restarted_client)
   \<and> Client.status restarted_client = StatusRunning
   \<and> conn restarted_client = Some ''localhost:5000''
   \<and> Client.status (Client_monitorConnection env_down restarted_client) = StatusRunning
   \<and> filter is_Dial (drop (length (Client.trace restarted_client))
        (Client.trace (Client_monitorConnection env_down restarted_client))) = []
   \<and> AutoReconnect (Client.opts running_client)
   \<and> Client.status running_client = StatusRunning
   \<and> conn running_client = Some ''localhost:5000''
   \<and> Client.status (Client_monitorConnection env_down_stop_in_first_sleep running_client)
       = StatusStopping
   \<and> filter is_Dial (drop (length (Client.trace running_client))
        (Client.trace (Client_monitorConnection env_down_stop_in_first_sleep running_client))) = []"
proof -
  have f: "conn restarted_client = Some ''localhost:5000''"
    "AutoReconnect (Client.opts restarted_client)"
    "MaxReconnectAttempts (Client.opts restarted_client) = 3"
    by (simp_all add: restarted_client_def client_defs fmt_d_def appendInt_def utoa.simps
        digit_def)
  have "Client_monitorConnection env_down restarted_client =
      Client_attemptReconnect env_down 0 (restarted_client\<lparr>isConnected := False\<rparr>)"
    using f restarted_client_facts by (intro monitor_reconnects) simp_all
  also have "\<dots> = pass_slept (pass_counted (restarted_client\<lparr>isConnected := False\<rparr>))"
    using f restarted_client_facts(1,3)
    by (intro reconnect_pass_cancelled) (simp_all add: env_down_def)
  finally have a: "Client_monitorConnection env_down restarted_client =
      pass_slept (pass_counted (restarted_client\<lparr>isConnected := False\<rparr>))" .
  have g: "conn running_client = Some ''localhost:5000''"
    "AutoReconnect (Client.opts running_client)" "Client.status running_client = StatusRunning"
    "MaxReconnectAttempts (Client.opts running_client) = 3"
    "reconnectAttempt running_client = 0"
    by (simp_all add: running_client_eq Client_DefaultOptions_def)
  have "Client_monitorConnection env_down_stop_in_first_sleep running_client =
      Client_attemptReconnect env_down_stop_in_first_sleep 0
        (running_client\<lparr>isConnected := False\<rparr>)"
    using g by (intro monitor_reconnects) simp_all
  also have "\<dots> = pass_slept (Client_Stop_shutdown
      (pass_counted (running_client\<lparr>isConnected := False\<rparr>)))"
    using g by (intro reconnect_pass_stopped) (simp_all add: env_down_stop_in_first_sleep_def)
  finally have b: "Client_monitorConnection env_down_stop_in_first_sleep running_client =
      pass_slept (Client_Stop_shutdown (pass_counted (running_client\<lparr>isConnected := False\<rparr>)))" .
  have ta: "Client.trace (Client_monitorConnection env_down restarted_client) =
      Client.trace restarted_client @ [Sleep Second_ns]"
    "Client.status (Client_monitorConnection env_down restarted_client) = StatusRunning"
    unfolding a
    by (simp_all add: pass_slept_def pass_counted_def restarted_client_facts
        Client_DefaultOptions_def)
  have tb: "Client.trace (Client_monitorConnection env_down_stop_in_first_sleep running_client) =
      Client.trace running_client @ [CloseConn, Sleep Second_ns]"
    "Client.status (Client_monitorConnection env_down_stop_in_first_sleep running_client)
       = StatusStopping"
    unfolding b
    by (simp_all add: running_client_eq pass_slept_def pass_counted_def Client_Stop_shutdown_def
        Client_updateStatusLocked_def Client_DefaultOptions_def Let_def)
  show ?thesis
    using f(1,2) g(1,2,3) restarted_client_facts(2) by (simp add: ta tb)
qed

text \<open>
  C5, as the code has it. The wait before an attempt is \<^verbatim>\<open>time.Sleep\<close>, which shutdown
  does not interrupt. A pass looks at the context once, after its full sleep and before
  its dial.

  A pass that finds the context cancelled ends the loop there: no dial in that pass, no
  further pass, and the loop has written nothing but the counter (no status, no event).
  This is so when \<^verbatim>\<open>Stop\<close> is called while the pass sleeps (after \<open>n\<close> passes whose dial
  failed; what else has changed is what \<^verbatim>\<open>Stop\<close> wrote), and when the pass starts with the
  context already cancelled.

  When \<^verbatim>\<open>Stop\<close> is called while a pass dials and the dial fails, the cancellation is seen
  at the look of the next pass, after that pass's full sleep, and no further dial is made.
  But if no pass is left, because the counter has reached \<^verbatim>\<open>MaxReconnectAttempts\<close>, the
  cancelled context stops nothing: the loop ends by setting Failed. The same happens when
  the loop is entered with the context cancelled and the counter at the bound.
\<close>

theorem C5_shutdown_seen_after_full_delay:
  "(Client.status c1 = StatusRunning \<and> \<not> Client.ctxDone c1
      \<and> reconnectAttempt c1 + int n1 < MaxReconnectAttempts (Client.opts c1)
      \<and> (\<forall>j<n1. \<not> stopInSleep (env1 (k1 + j)) \<and> \<not> stopInDial (env1 (k1 + j))
                  \<and> dialResult (env1 (k1 + j)) \<noteq> None)
      \<and> stopInSleep (env1 (k1 + n1))
    \<longrightarrow>
      Client_attemptReconnect env1 k1 c1 =
        pass_slept (Client_Stop_shutdown (pass_counted (after_failed_passes n1 c1))))
   \<and> (reconnectAttempt c2 < MaxReconnectAttempts (Client.opts c2) \<and> Client.ctxDone c2
    \<longrightarrow>
      Client_attemptReconnect env2 k2 c2 =
        pass_slept (concurrent_Stop (stopInSleep (env2 k2)) (pass_counted c2)))
   \<and> (Client.status c3 = StatusRunning \<and> \<not> Client.ctxDone c3
      \<and> reconnectAttempt c3 + int n3 + 1 < MaxReconnectAttempts (Client.opts c3)
      \<and> (\<forall>j<n3. \<not> stopInSleep (env3 (k3 + j)) \<and> \<not> stopInDial (env3 (k3 + j))
                  \<and> dialResult (env3 (k3 + j)) \<noteq> None)
      \<and> \<not> stopInSleep (env3 (k3 + n3)) \<and> stopInDial (env3 (k3 + n3))
      \<and> dialResult (env3 (k3 + n3)) \<noteq> None
    \<longrightarrow>
      Client_attemptReconnect env3 k3 c3 =
        pass_slept (pass_counted (Client_Stop_shutdown (after_failed_passes (Suc n3) c3))))
   \<and> (Client.status c4 = StatusRunning \<and> \<not> Client.ctxDone c4
      \<and> reconnectAttempt c4 + int n4 + 1 = MaxReconnectAttempts (Client.opts c4)
      \<and> (\<forall>j<n4. \<not> stopInSleep (env4 (k4 + j)) \<and> \<not> stopInDial (env4 (k4 + j))
                  \<and> dialResult (env4 (k4 + j)) \<noteq> None)
      \<and> \<not> stopInSleep (env4 (k4 + n4)) \<and> stopInDial (env4 (k4 + n4))
      \<and> dialResult (env4 (k4 + n4)) \<noteq> None
    \<longrightarrow>
      Client_attemptReconnect env4 k4 c4 =
        Client_updateStatus StatusFailed
          (Some (ReconnectExhausted ''max reconnection attempts reached''))
          (Client_Stop_shutdown (after_failed_passes (Suc n4) c4))
      \<and> Client.status (Client_attemptReconnect env4 k4 c4) = StatusFailed)
   \<and> (Client.ctxDone c5 \<and> \<not> reconnectAttempt c5 < MaxReconnectAttempts (Client.opts c5)
    \<longrightarrow>
      Client_attemptReconnect env5 k5 c5 =
        Client_updateStatus StatusFailed
          (Some (ReconnectExhausted ''max reconnection attempts reached'')) c5
      \<and> Client.status (Client_attemptReconnect env5 k5 c5) = StatusFailed)"
proof (intro conjI impI)
  assume H: "Client.status c1 = StatusRunning \<and> \<not> Client.ctxDone c1
      \<and> reconnectAttempt c1 + int n1 < MaxReconnectAttempts (Client.opts c1)
      \<and> (\<forall>j<n1. \<not> stopInSleep (env1 (k1 + j)) \<and> \<not> stopInDial (env1 (k1 + j))
                  \<and> dialResult (env1 (k1 + j)) \<noteq> None)
      \<and> stopInSleep (env1 (k1 + n1))"
  let ?cn = "after_failed_passes n1 c1"
  have "Client_attemptReconnect env1 k1 c1 = Client_attemptReconnect env1 (k1 + n1) ?cn"
    using H by (intro reconnect_failed_passes) simp_all
  moreover have "Client_attemptReconnect env1 (k1 + n1) ?cn =
      pass_slept (Client_Stop_shutdown (pass_counted ?cn))"
    using H by (intro reconnect_pass_stopped) (simp_all add: after_failed_passes_fields)
  ultimately show "Client_attemptReconnect env1 k1 c1 =
        pass_slept (Client_Stop_shutdown (pass_counted (after_failed_passes n1 c1)))"
    by simp
next
  assume H: "reconnectAttempt c2 < MaxReconnectAttempts (Client.opts c2) \<and> Client.ctxDone c2"
  then show "Client_attemptReconnect env2 k2 c2 =
        pass_slept (concurrent_Stop (stopInSleep (env2 k2)) (pass_counted c2))"
    by (intro reconnect_pass_entered_cancelled) simp_all
next
  assume H: "Client.status c3 = StatusRunning \<and> \<not> Client.ctxDone c3
      \<and> reconnectAttempt c3 + int n3 + 1 < MaxReconnectAttempts (Client.opts c3)
      \<and> (\<forall>j<n3. \<not> stopInSleep (env3 (k3 + j)) \<and> \<not> stopInDial (env3 (k3 + j))
                  \<and> dialResult (env3 (k3 + j)) \<noteq> None)
      \<and> \<not> stopInSleep (env3 (k3 + n3)) \<and> stopInDial (env3 (k3 + n3))
      \<and> dialResult (env3 (k3 + n3)) \<noteq> None"
  let ?s = "Client_Stop_shutdown (after_failed_passes (Suc n3) c3)"
  have "Client_attemptReconnect env3 k3 c3 = Client_attemptReconnect env3 (k3 + n3 + 1) ?s"
    using H by (intro reconnect_failed_then_stopped_in_dial) simp_all
  moreover have "Client_attemptReconnect env3 (k3 + n3 + 1) ?s = pass_slept (pass_counted ?s)"
    using H
    by (intro reconnect_pass_cancelled)
       (simp_all add: Stop_shutdown_fields after_failed_passes_fields)
  ultimately show "Client_attemptReconnect env3 k3 c3 =
        pass_slept (pass_counted (Client_Stop_shutdown (after_failed_passes (Suc n3) c3)))"
    by simp
next
  assume H: "Client.status c4 = StatusRunning \<and> \<not> Client.ctxDone c4
      \<and> reconnectAttempt c4 + int n4 + 1 = MaxReconnectAttempts (Client.opts c4)
      \<and> (\<forall>j<n4. \<not> stopInSleep (env4 (k4 + j)) \<and> \<not> stopInDial (env4 (k4 + j))
                  \<and> dialResult (env4 (k4 + j)) \<noteq> None)
      \<and> \<not> stopInSleep (env4 (k4 + n4)) \<and> stopInDial (env4 (k4 + n4))
      \<and> dialResult (env4 (k4 + n4)) \<noteq> None"
  let ?s = "Client_Stop_shutdown (after_failed_passes (Suc n4) c4)"
  have "Client_attemptReconnect env4 k4 c4 = Client_attemptReconnect env4 (k4 + n4 + 1) ?s"
    using H by (intro reconnect_failed_then_stopped_in_dial) simp_all
  moreover have "Client_attemptReconnect env4 (k4 + n4 + 1) ?s =
      Client_updateStatus StatusFailed
        (Some (ReconnectExhausted ''max reconnection attempts reached'')) ?s"
    using H
    by (intro reconnect_exhausted)
       (simp add: Stop_shutdown_fields after_failed_passes_fields)
  ultimately show res: "Client_attemptReconnect env4 k4 c4 =
        Client_updateStatus StatusFailed
          (Some (ReconnectExhausted ''max reconnection attempts reached''))
          (Client_Stop_shutdown (after_failed_passes (Suc n4) c4))"
    by simp
  show "Client.status (Client_attemptReconnect env4 k4 c4) = StatusFailed"
    by (simp add: res Client_updateStatus_def Client_updateStatusLocked_def Let_def)
next
  assume H: "Client.ctxDone c5 \<and> \<not> reconnectAttempt c5 < MaxReconnectAttempts (Client.opts c5)"
  then show res: "Client_attemptReconnect env5 k5 c5 =
        Client_updateStatus StatusFailed
          (Some (ReconnectExhausted ''max reconnection attempts reached'')) c5"
    by (intro reconnect_exhausted) simp
  show "Client.status (Client_attemptReconnect env5 k5 c5) = StatusFailed"
    by (simp add: res Client_updateStatus_def Client_updateStatusLocked_def Let_def)
qed

text \<open>
  C5 at an instance: the running client when \<^verbatim>\<open>Stop\<close> is called during the first sleep;
  the restarted client, whose context is cancelled from the start; the running client when
  \<^verbatim>\<open>Stop\<close> is called during the first dial, with two attempts left and with none left; and
  the restarted client whose bound of attempts is zero.
\<close>

theorem C5_witness:
  "Client.status running_client = StatusRunning \<and> \<not> Client.ctxDone running_client
   \<and> stopInSleep (env_stop_in_first_sleep 0)
   \<and> Client_attemptReconnect env_stop_in_first_sleep 0 running_client =
       pass_slept (Client_Stop_shutdown (pass_counted running_client))
   \<and> Client.ctxDone restarted_client
   \<and> Client_attemptReconnect env_down 0 restarted_client =
       pass_slept (pass_counted restarted_client)
   \<and> stopInDial (env_down_stop_in_first_dial 0)
   \<and> Client_attemptReconnect env_down_stop_in_first_dial 0 running_client =
       pass_slept (pass_counted
         (Client_Stop_shutdown (after_failed_passes (Suc 0) running_client)))
   \<and> Client.status running_client_one_attempt = StatusRunning
   \<and> MaxReconnectAttempts (Client.opts running_client_one_attempt) = 1
   \<and> Client.status (Client_attemptReconnect env_down_stop_in_first_dial 0
        running_client_one_attempt) = StatusFailed
   \<and> Client.ctxDone restarted_client_without_attempts
   \<and> Client.status (Client_attemptReconnect env_up 0 restarted_client_without_attempts)
       = StatusFailed"
proof -
  have r: "Client.status running_client = StatusRunning" "\<not> Client.ctxDone running_client"
    "reconnectAttempt running_client = 0"
    "MaxReconnectAttempts (Client.opts running_client) = 3"
    by (simp_all add: running_client_eq Client_DefaultOptions_def)
  have o: "MaxReconnectAttempts (Client.opts restarted_client) = 3"
    by (simp add: restarted_client_facts Client_DefaultOptions_def)
  have e: "stopInSleep (env_stop_in_first_sleep 0)" "\<not> stopInSleep (env_down 0)"
    "\<not> stopInSleep (env_down_stop_in_first_dial 0)" "stopInDial (env_down_stop_in_first_dial 0)"
    "dialResult (env_down_stop_in_first_dial 0) \<noteq> None"
    by (simp_all add: env_stop_in_first_sleep_def env_down_def env_down_stop_in_first_dial_def)
  show ?thesis
    using C5_shutdown_seen_after_full_delay
      [where ?c1.0 = running_client and ?n1.0 = 0 and ?env1.0 = env_stop_in_first_sleep
         and ?k1.0 = 0
         and ?c2.0 = restarted_client and ?env2.0 = env_down and ?k2.0 = 0
         and ?c3.0 = running_client and ?n3.0 = 0 and ?env3.0 = env_down_stop_in_first_dial
         and ?k3.0 = 0
         and ?c4.0 = running_client_one_attempt and ?n4.0 = 0
         and ?env4.0 = env_down_stop_in_first_dial and ?k4.0 = 0
         and ?c5.0 = restarted_client_without_attempts and ?env5.0 = env_up and ?k5.0 = 0]
      r o e restarted_client_facts(1,3) restarted_client_without_attempts_facts
      running_client_one_attempt_facts
    by (simp add: after_failed_passes_0 concurrent_Stop_simps Client_updateStatus_def
        Client_updateStatusLocked_def Let_def)
qed

text \<open>
  C5 as stated fails: the restarted client is Running with its context cancelled, and the
  loop still sleeps the whole \<^verbatim>\<open>ReconnectDelay\<close> of one second before it stops; so does
  the running client when \<^verbatim>\<open>Stop\<close> cancels the context while the first pass sleeps (the
  connection is closed by \<^verbatim>\<open>Stop\<close>, and the sleep of one second is completed all the
  same).
\<close>

theorem C5_counterexample:
  "Client.ctxDone restarted_client
   \<and> Client.status restarted_client = StatusRunning
   \<and> ReconnectDelay (Client.opts restarted_client) = 1000000000
   \<and> drop (length (Client.trace restarted_client))
        (Client.trace (Client_attemptReconnect env_down 0 restarted_client)) = [Sleep 1000000000]
   \<and> drop (length (Client.trace running_client))
        (Client.trace (Client_attemptReconnect env_stop_in_first_sleep 0 running_client))
       = [CloseConn, Sleep 1000000000]"
proof -
  have o: "reconnectAttempt restarted_client < MaxReconnectAttempts (Client.opts restarted_client)"
    "ReconnectDelay (Client.opts restarted_client) = 1000000000"
    by (simp_all add: restarted_client_facts Client_DefaultOptions_def Second_ns_def)
  have a: "Client_attemptReconnect env_down 0 restarted_client =
      pass_slept (pass_counted restarted_client)"
    using o(1) restarted_client_facts(1)
    by (intro reconnect_pass_cancelled) (simp_all add: env_down_def)
  have r: "reconnectAttempt running_client < MaxReconnectAttempts (Client.opts running_client)"
    "Client.status running_client = StatusRunning"
    by (simp_all add: running_client_eq Client_DefaultOptions_def)
  have b: "Client_attemptReconnect env_stop_in_first_sleep 0 running_client =
      pass_slept (Client_Stop_shutdown (pass_counted running_client))"
    using r by (intro reconnect_pass_stopped) (simp_all add: env_stop_in_first_sleep_def)
  have ta: "Client.trace (Client_attemptReconnect env_down 0 restarted_client) =
      Client.trace restarted_client @ [Sleep 1000000000]"
    unfolding a using o(2) by (simp add: pass_slept_def pass_counted_def)
  have tb: "Client.trace (Client_attemptReconnect env_stop_in_first_sleep 0 running_client) =
      Client.trace running_client @ [CloseConn, Sleep 1000000000]"
    unfolding b
    by (simp add: running_client_eq pass_slept_def pass_counted_def Client_Stop_shutdown_def
        Client_updateStatusLocked_def Client_DefaultOptions_def Second_ns_def Let_def)
  show ?thesis
    using o(2) restarted_client_facts(1,2) by (simp add: ta tb)
qed

section \<open>Dispatch of inbound calls\<close>

text \<open>
  C7. An inbound call on an open connection whose method name has no registered handler
  is answered by \<^verbatim>\<open>ReplyWithError\<close> with the code \<^verbatim>\<open>CodeMethodNotFound\<close>, a reply of the
  protocol layer and not a response with \<^verbatim>\<open>Success = false\<close>; the connection is still
  open afterwards, and the calls that follow on it are served on it.
\<close>

theorem C7_unknown_method_gets_protocol_error:
  "handlers s (Method req) = None \<and> \<not> closed cn \<longrightarrow>
     rpcHandler_Handle s ctx req cn =
       Inr (cn\<lparr>sent := sent cn @
              [ReplyWithError (Request.ID req) CodeMethodNotFound
                 (''method not found: '' @ Method req)]\<rparr>)
     \<and> \<not> closed (cn\<lparr>sent := sent cn @
              [ReplyWithError (Request.ID req) CodeMethodNotFound
                 (''method not found: '' @ Method req)]\<rparr>)
     \<and> serve s ctx (req # reqs) cn =
         serve s ctx reqs
           (cn\<lparr>sent := sent cn @
              [ReplyWithError (Request.ID req) CodeMethodNotFound
                 (''method not found: '' @ Method req)]\<rparr>)"
  by (simp add: rpcHandler_Handle_def Conn_send_def)

text \<open>
  C7 at an instance: a server with the default handler: a call of "mcp.unknown" is answered
  with the protocol error, and the call of "mcp.processModel" after it on the same
  connection gets the handler's response.
\<close>

theorem C7_witness:
  "handlers serving_server (Method unknown_call) = None \<and> \<not> closed open_conn
   \<and> rpcHandler_Handle serving_server False unknown_call open_conn =
       Inr \<lparr>closed = False,
            sent = [ReplyWithError ''1'' CodeMethodNotFound ''method not found: mcp.unknown'']\<rparr>
   \<and> serve serving_server False [unknown_call, model_call] open_conn =
       Inr \<lparr>closed = False,
            sent = [ReplyWithError ''1'' CodeMethodNotFound ''method not found: mcp.unknown'',
                    Reply ''2'' (fst (DefaultModelHandler_ProcessModel (example_clock 0) False
                                        example_request))]\<rparr>"
proof -
  have h: "handlers serving_server (Method unknown_call) = None"
    by (simp add: serving_server_def Server_RegisterHandler_def NewDefaultModelHandler_def
        DefaultModelHandler_Methods_def Server_New_def unknown_call_def)
  have o: "\<not> closed open_conn" by (simp add: open_conn_def)
  have m: "rpcHandler_Handle serving_server False model_call cn =
      Inr (cn\<lparr>sent := sent cn @ [Reply ''2''
             (fst (DefaultModelHandler_ProcessModel (example_clock 0) False example_request))]\<rparr>)"
    if "\<not> closed cn" for cn
    using that
    by (simp add: rpcHandler_Handle_def handleProcessModel_def serving_server_def
        Server_RegisterHandler_def NewDefaultModelHandler_def DefaultModelHandler_Methods_def
        Server_New_def model_call_def Conn_send_def DefaultModelHandler_ProcessModel_def Let_def)
  show ?thesis
    using C7_unknown_method_gets_protocol_error
      [of serving_server unknown_call open_conn False "[model_call]"] h o
    by (simp add: m) (simp add: open_conn_def unknown_call_def)
qed

section \<open>Delivery of status events\<close>

text \<open>
  Of the callback goroutines that were started, each has run at most once. The goroutines
  of the start of the client with one observer, and a run of them with the later one
  first.
\<close>

lemma runs_as_at_most_once: "runs_as pending order \<Longrightarrow> mset order \<subseteq># mset pending"
proof (induction rule: runs_as.induct)
  case (none_run pending)
  then show ?case by simp
next
  case (run_next xs ys order x)
  then have "add_mset x (mset order) \<subseteq># add_mset x (mset (xs @ ys))"
    by (simp only: mset_subset_eq_add_mset_cancel)
  then show ?case by simp
qed

lemma observed_client_spawned:
  "spawned (Client.trace observed_client) = [(0, event_starting), (0, event_running)]"
  by (simp add: observed_client_def Client_OnStatusChange_def client_defs event_starting_def
      event_running_def)

lemma late_first: "runs_as [(0, event_starting), (0, event_running)]
                           [(0, event_running), (0, event_starting)]"
proof -
  have "runs_as ([] @ []) []" by (rule runs_as.none_run)
  then have "runs_as ([] @ (0, event_starting) # []) [(0, event_starting)]"
    by (rule runs_as.run_next)
  then have "runs_as ([(0, event_starting)] @ []) [(0, event_starting)]" by simp
  then have "runs_as ([(0, event_starting)] @ (0, event_running) # [])
                     ((0, event_running) # [(0, event_starting)])"
    by (rule runs_as.run_next)
  then show ?thesis by simp
qed

text \<open>
  C8, as the code has it. A transition of the client or of the server writes the new
  status and starts, for every callback registered at that moment, exactly one goroutine
  that calls it with the event of that transition (the old status, the new status, the
  clock reading and the error), in the order of registration, and waits for none of them.
  Nothing in the code waits for these goroutines or orders them.
\<close>

theorem C8_one_goroutine_per_observer_and_transition:
  "Client.status (Client_updateStatusLocked st err c) = st
   \<and> spawned (Client.trace (Client_updateStatusLocked st err c)) =
       spawned (Client.trace c) @
       map (\<lambda>cb. (cb, \<lparr>OldStatus = Client.status c, NewStatus = st,
                       Timestamp = Client.clock c (Client.reads c), Error = err\<rparr>))
         (Client.callbacks c)
   \<and> Server.status (Server_updateStatusLocked st err s) = st
   \<and> spawned (Server.trace (Server_updateStatusLocked st err s)) =
       spawned (Server.trace s) @
       map (\<lambda>cb. (cb, \<lparr>OldStatus = Server.status s, NewStatus = st,
                       Timestamp = Server.clock s (Server.reads s), Error = err\<rparr>))
         (Server.callbacks s)"
  by (simp add: Client_updateStatusLocked_def Server_updateStatusLocked_def Let_def
      spawned_append spawned_GoCallbacks)

text \<open>
  C8 as stated fails: the start of a client with one observer starts a goroutine for the
  event Stopped to Starting and then one for Starting to Running; when the second
  goroutine runs first, the observer receives the events in the other order than the
  transitions occurred.
\<close>

theorem C8_counterexample:
  "spawned (Client.trace observed_client) = [(0, event_starting), (0, event_running)]
   \<and> runs_as (spawned (Client.trace observed_client)) [(0, event_running), (0, event_starting)]
   \<and> received 0 [(0, event_running), (0, event_starting)] = [event_running, event_starting]
   \<and> [event_running, event_starting] \<noteq> [event_starting, event_running]"
  using late_first
  by (simp add: observed_client_spawned received_def event_starting_def event_running_def)

end
